theory Spec2Isabelle
  imports Main "HOL-Library.Sublist"
begin

section \<open>Python values and strings\<close>

text \<open>
  A Python \<open>str\<close> is a sequence of Unicode code points; \<open>len\<close> counts code points and
  \<open>in\<close> is contiguous containment. Strings are therefore lists of code points, written
  in hexadecimal. The literals below are the literals of \<open>core.py\<close>, \<open>utils.py\<close> and
  \<open>cli.py\<close>, code point by code point.
\<close>

type_synonym ustr = "nat list"

text \<open>\<open>text.startswith(w)\<close>.\<close>

fun startswith :: "ustr \<Rightarrow> ustr \<Rightarrow> bool" where
  "startswith t [] = True"
| "startswith [] (x # w) = False"
| "startswith (y # t) (x # w) = (y = x \<and> startswith t w)"

text \<open>\<open>w in text\<close> for two strings: \<open>w\<close> occurs in \<open>text\<close> at some position.\<close>

fun str_in :: "ustr \<Rightarrow> ustr \<Rightarrow> bool" where
  "str_in w [] = (w = [])"
| "str_in w (y # t) = (startswith (y # t) w \<or> str_in w t)"

text \<open>
  \<open>str.isspace\<close> on one code point: the 29 code points CPython 3 treats as whitespace,
  which are the ones \<open>str.strip()\<close> removes.
\<close>

definition isspace :: "nat \<Rightarrow> bool" where
  "isspace c \<longleftrightarrow>
     (0x9 \<le> c \<and> c \<le> 0xD) \<or> (0x1C \<le> c \<and> c \<le> 0x20) \<or> c = 0x85 \<or> c = 0xA0 \<or>
     c = 0x1680 \<or> (0x2000 \<le> c \<and> c \<le> 0x200A) \<or> c = 0x2028 \<or> c = 0x2029 \<or>
     c = 0x202F \<or> c = 0x205F \<or> c = 0x3000"

definition lstrip :: "ustr \<Rightarrow> ustr" where
  "lstrip t = dropWhile isspace t"

definition rstrip :: "ustr \<Rightarrow> ustr" where
  "rstrip t = rev (dropWhile isspace (rev t))"

definition strip :: "ustr \<Rightarrow> ustr" where
  "strip t = rstrip (lstrip t)"

text \<open>
  The values \<open>json.load\<close> and \<open>Response.json()\<close> can produce, which are also the values
  a caller can pass where a \<open>str\<close> is expected. A \<open>dict\<close> is kept as an association
  list in insertion order. Floats are left out.
\<close>

datatype pyval =
    PNone
  | PBool bool
  | PInt int
  | PStr ustr
  | PList "pyval list"
  | PDict "(ustr \<times> pyval) list"

text \<open>Truth value of a Python object, as \<open>if x:\<close> and \<open>not x\<close> test it.\<close>

fun truthy :: "pyval \<Rightarrow> bool" where
  "truthy PNone = False"
| "truthy (PBool b) = b"
| "truthy (PInt n) = (n \<noteq> 0)"
| "truthy (PStr s) = (s \<noteq> [])"
| "truthy (PList xs) = (xs \<noteq> [])"
| "truthy (PDict kvs) = (kvs \<noteq> [])"

text \<open>\<open>isinstance(x, str)\<close>.\<close>

fun isinstance_str :: "pyval \<Rightarrow> bool" where
  "isinstance_str (PStr s) = True"
| "isinstance_str v = False"

section \<open>core.py: the validator\<close>

text \<open>\<open>SIMPLIFIED_CHARS = set("...")\<close>: fifteen simplified-only glyphs.\<close>

definition SIMPLIFIED_CHARS :: "nat list" where
  "SIMPLIFIED_CHARS =
    [0x540E, 0x53D1, 0x4E3A, 0x4EBF, 0x4EC5, 0x5389, 0x538B, 0x5988, 0x5C5E, 0x5C42,
     0x5382, 0x5E7F, 0x5E86, 0x5F55, 0x89C9]"

text \<open>\<open>any(c in SIMPLIFIED_CHARS for c in text)\<close>.\<close>

definition contains_simplified_chinese :: "ustr \<Rightarrow> bool" where
  "contains_simplified_chinese text = list_ex (\<lambda>c. c \<in> set SIMPLIFIED_CHARS) text"

text \<open>
  \<open>DANGER_WORDS\<close>: cancer, tumour, sepsis, terminal stage, malignant, organ failure, death,
  amputation, spasm, diabetes, kidney disease, chronic illness, onset, deterioration.
\<close>

definition DANGER_WORDS :: "ustr list" where
  "DANGER_WORDS =
    [ [0x764C],
     [0x816B, 0x7624],
     [0x6557, 0x8840],
     [0x672B, 0x671F],
     [0x60E1, 0x6027],
     [0x5668, 0x5B98, 0x8870, 0x7AED],
     [0x6B7B, 0x4EA1],
     [0x622A, 0x80A2],
     [0x75D9, 0x6523],
     [0x7CD6, 0x5C3F, 0x75C5],
     [0x814E, 0x75C5, 0x8B8A],
     [0x6162, 0x6027, 0x75C5],
     [0x75C5, 0x767C],
     [0x60E1, 0x5316] ]"

text \<open>\<open>NONSENSE_WORDS\<close>: four garbage phrases.\<close>

definition NONSENSE_WORDS :: "ustr list" where
  "NONSENSE_WORDS =
    [ [0x6EF4, 0x6C34],
     [0x809D, 0x819C, 0x75C5],
     [0x5BC4, 0x751F, 0x8655, 0x6A5F],
     [0x80CE, 0x5A66, 0x8207, 0x5B55, 0x5A66, 0x7684, 0x5371, 0x96AA] ]"

text \<open>
  \<open>is_valid_response(text, min_length=50)\<close>. The result is the boolean alone; the three
  \<open>logging.warning\<close> calls are modelled in \<open>is_valid_response_logged\<close> below. The set
  union \<open>DANGER_WORDS | NONSENSE_WORDS\<close> is only tested with \<open>any\<close>, so its iteration order
  does not matter and the two lists are appended.
\<close>

definition is_valid_response :: "pyval \<Rightarrow> int \<Rightarrow> bool" where
  "is_valid_response text min_length =
     (if \<not> truthy text \<or> \<not> isinstance_str text then False
      else case text of
        PStr s \<Rightarrow>
          if list_ex (\<lambda>w. str_in w s) (DANGER_WORDS @ NONSENSE_WORDS) then False
          else if contains_simplified_chinese s then False
          else if int (length (strip s)) < min_length then False
          else True
      | _ \<Rightarrow> False)"

section \<open>core.py: the fallback template\<close>

text \<open>
  \<open>fallback_response(user_input)\<close> is an f-string: a fixed head ending in an opening corner
  bracket, the user's text, and a fixed tail starting with a closing corner bracket and
  ending in a smiling-face emoji.
\<close>

definition fallback_head :: "ustr" where
  "fallback_head =
    [0x60A8, 0x597D, 0xFF5E, 0x6211, 0x4E86, 0x89E3, 0x60A8, 0x63D0, 0x5230, 0x300C]"

definition fallback_tail :: "ustr" where
  "fallback_tail =
    [0x300D, 0xFF0C, 0x96D6, 0x7136, 0x6211, 0x9019, 0x88E1, 0x6C92, 0x6709, 0x627E,
     0x5230, 0x78BA, 0x5207, 0x7684, 0x5EFA, 0x8B70, 0xFF0C, 0x4F46, 0x8ACB, 0x60A8,
     0x4E0D, 0x7528, 0x592A, 0x64D4, 0x5FC3, 0x3002, 0x5148, 0x591A, 0x559D, 0x9EDE,
     0x6EAB, 0x958B, 0x6C34, 0xFF0C, 0x597D, 0x597D, 0x4F11, 0x606F, 0x3002, 0x5982,
     0x679C, 0x75C7, 0x72C0, 0x6301, 0x7E8C, 0x6216, 0x8B93, 0x60A8, 0x5F88, 0x4E0D,
     0x8212, 0x670D, 0xFF0C, 0x5EFA, 0x8B70, 0x548C, 0x5BB6, 0x4EBA, 0x4E00, 0x8D77,
     0x53BB, 0x770B, 0x91AB, 0x5E2B, 0x3002, 0x5982, 0x679C, 0x9084, 0x6709, 0x5176,
     0x4ED6, 0x4E0D, 0x8212, 0x670D, 0xFF0C, 0x4E5F, 0x53EF, 0x4EE5, 0x518D, 0x554F,
     0x6211, 0x5594, 0xFF0C, 0x6211, 0x6703, 0x966A, 0x8457, 0x60A8, 0x20, 0x1F60A]"

definition fallback_response :: "ustr \<Rightarrow> ustr" where
  "fallback_response user_input = fallback_head @ user_input @ fallback_tail"

section \<open>core.py: what the validator logs\<close>

text \<open>
  A record handed to the \<open>logging\<close> module: its level and its message. The handler is a
  \<open>StreamHandler\<close>; time stamps are left out.
\<close>

datatype log_record = Info ustr | Warning ustr | Error ustr

text \<open>
  The three messages of \<open>is_valid_response\<close>: "the reply contains dangerous or meaningless
  words", "the reply contains simplified characters", "the reply is too short".
\<close>

definition MSG_DANGER_OR_NONSENSE :: "ustr" where
  "MSG_DANGER_OR_NONSENSE =
    [0x56DE, 0x61C9, 0x542B, 0x6709, 0x5371, 0x96AA, 0x6216, 0x7121, 0x610F, 0x7FA9,
     0x8A5E, 0x5F59]"

definition MSG_SIMPLIFIED :: "ustr" where
  "MSG_SIMPLIFIED =
    [0x56DE, 0x61C9, 0x542B, 0x6709, 0x7C21, 0x9AD4, 0x5B57]"

definition MSG_TOO_SHORT :: "ustr" where
  "MSG_TOO_SHORT =
    [0x56DE, 0x61C9, 0x904E, 0x77ED, 0xFF0C, 0x53EF, 0x80FD, 0x7121, 0x6CD5, 0x5E6B,
     0x52A9, 0x4F7F, 0x7528, 0x8005]"

text \<open>
  \<open>is_valid_response\<close> once more, now with the records it logs: the returned boolean and
  the list of records emitted during the call.
\<close>

definition is_valid_response_logged :: "pyval \<Rightarrow> int \<Rightarrow> bool \<times> log_record list" where
  "is_valid_response_logged text min_length =
     (if \<not> truthy text \<or> \<not> isinstance_str text then (False, [])
      else case text of
        PStr s \<Rightarrow>
          if list_ex (\<lambda>w. str_in w s) (DANGER_WORDS @ NONSENSE_WORDS)
            then (False, [Warning MSG_DANGER_OR_NONSENSE])
          else if contains_simplified_chinese s then (False, [Warning MSG_SIMPLIFIED])
          else if int (length (strip s)) < min_length then (False, [Warning MSG_TOO_SHORT])
          else (True, [])
      | _ \<Rightarrow> (False, []))"

subsection \<open>The verdict of the specification\<close>

text \<open>
  The specification words the validator as a function into a tagged verdict, with five
  checks in a fixed order, the first failing one giving the reason. \<open>spec_validate\<close>
  follows those words; it is compared with the code's function below.
\<close>

datatype reject_reason =
    empty_or_non_text
  | contains_unsafe_term
  | contains_nonsense_term
  | contains_wrong_script
  | too_short

datatype verdict = Accepted | Rejected reject_reason

definition spec_validate :: "pyval \<Rightarrow> int \<Rightarrow> verdict" where
  "spec_validate text min_length =
     (case text of
        PStr s \<Rightarrow>
          if s = [] then Rejected empty_or_non_text
          else if list_ex (\<lambda>w. str_in w s) DANGER_WORDS then Rejected contains_unsafe_term
          else if list_ex (\<lambda>w. str_in w s) NONSENSE_WORDS then Rejected contains_nonsense_term
          else if list_ex (\<lambda>c. c \<in> set SIMPLIFIED_CHARS) s then Rejected contains_wrong_script
          else if int (length (strip s)) < min_length then Rejected too_short
          else Accepted
      | _ \<Rightarrow> Rejected empty_or_non_text)"

section \<open>core.py: formatting and lookup\<close>

text \<open>
  A knowledge-base entry as the data model types it: three optional lists of strings and
  an optional string. \<open>None\<close> stands for a key that the entry's \<open>dict\<close> does not have,
  which \<open>entry.get(key, default)\<close> replaces by the default. Entries whose fields hold other
  JSON types are outside this model.
\<close>

record advice =
  possible_causes :: "ustr list option"
  self_care :: "ustr list option"
  when_to_see_doctor :: "ustr list option"
  encouragement :: "ustr option"

text \<open>\<open>d.get(key, default)\<close> on a field that is present or absent.\<close>

definition get_or :: "'a option \<Rightarrow> 'a \<Rightarrow> 'a" where
  "get_or field dflt = (case field of None \<Rightarrow> dflt | Some v \<Rightarrow> v)"

text \<open>\<open>sep.join(lines)\<close>.\<close>

fun join :: "ustr \<Rightarrow> ustr list \<Rightarrow> ustr" where
  "join sep [] = []"
| "join sep [l] = l"
| "join sep (l # m # ls) = l @ sep @ join sep (m # ls)"

text \<open>
  The literals of \<open>format_response\<close>: four numbered titles ("possible causes", "what to do
  at home", "when to see a doctor", "words of encouragement"), the bullet prefix, the
  placeholder line ("no data yet") and the default encouragement.
\<close>

definition TITLE_CAUSES :: "ustr" where
  "TITLE_CAUSES =
    [0x31, 0x2E, 0x20, 0x53EF, 0x80FD, 0x539F, 0x56E0, 0xFF1A]"

definition TITLE_SELF_CARE :: "ustr" where
  "TITLE_SELF_CARE =
    [0x32, 0x2E, 0x20, 0x5728, 0x5BB6, 0x53EF, 0x4EE5, 0x600E, 0x9EBC, 0x505A,
     0xFF1A]"

definition TITLE_DOCTOR :: "ustr" where
  "TITLE_DOCTOR =
    [0x33, 0x2E, 0x20, 0x4EC0, 0x9EBC, 0x6642, 0x5019, 0x9700, 0x8981, 0x770B,
     0x91AB, 0x751F, 0xFF1A]"

definition TITLE_ENCOURAGEMENT :: "ustr" where
  "TITLE_ENCOURAGEMENT =
    [0x34, 0x2E, 0x20, 0x9F13, 0x52F5, 0x7684, 0x8A71, 0xFF1A]"

definition NO_DATA_LINE :: "ustr" where
  "NO_DATA_LINE =
    [0x20, 0x20, 0x20, 0x2D, 0x20, 0xFF08, 0x66AB, 0x7121, 0x8CC7, 0x6599,
     0xFF09]"

definition DEFAULT_ENCOURAGEMENT :: "ustr" where
  "DEFAULT_ENCOURAGEMENT =
    [0x8ACB, 0x591A, 0x6CE8, 0x610F, 0x4F11, 0x606F, 0x5594, 0xFF01]"

definition BULLET :: "ustr" where
  "BULLET = [0x20, 0x20, 0x20, 0x2D, 0x20]"

text \<open>The body of the loop over \<open>sections\<close>: the lines one section contributes.\<close>

definition section_lines :: "ustr \<times> ustr list \<Rightarrow> ustr list" where
  "section_lines sec =
     (case sec of (title, items) \<Rightarrow>
        title # (if items \<noteq> [] then map (\<lambda>item. BULLET @ item) items else [NO_DATA_LINE]))"

definition format_response :: "advice \<Rightarrow> ustr" where
  "format_response entry =
     (let sections =
            [(TITLE_CAUSES, get_or (possible_causes entry) []),
             (TITLE_SELF_CARE, get_or (self_care entry) []),
             (TITLE_DOCTOR, get_or (when_to_see_doctor entry) [])];
          lines = concat (map section_lines sections);
          lines = lines @ [TITLE_ENCOURAGEMENT];
          lines = lines @ [BULLET @ get_or (encouragement entry) DEFAULT_ENCOURAGEMENT]
      in join [0xA] lines)"

text \<open>
  \<open>SYNONYMS\<close>: "stomach ache", "diarrhoea" and "dizziness", each with its colloquial
  variants.
\<close>

definition SYNONYMS :: "(ustr \<times> ustr list) list" where
  "SYNONYMS =
    [([0x809A, 0x5B50, 0x75DB],
      [ [0x80C3, 0x75DB],
       [0x8179, 0x75DB],
       [0x809A, 0x60B6],
       [0x8178, 0x80C3, 0x4E0D, 0x8212, 0x670D] ]),
     ([0x62C9, 0x809A, 0x5B50],
      [ [0x8179, 0x7009],
       [0x5927, 0x4FBF, 0x6C34],
       [0x4FBF, 0x7A00],
       [0x8DD1, 0x5EC1, 0x6240] ]),
     ([0x982D, 0x6688],
      [ [0x6688, 0x7729],
       [0x6688, 0x982D, 0x8F49, 0x5411],
       [0x773C, 0x82B1] ])]"

text \<open>\<open>[key] + SYNONYMS.get(key, [])\<close>.\<close>

definition terms_of :: "ustr \<Rightarrow> ustr list" where
  "terms_of key = key # get_or (map_of SYNONYMS key) []"

text \<open>
  The knowledge base \<open>medical_db\<close> is a module-level \<open>dict\<close> read from a file that is
  not part of the sources; it is a parameter here, an association list in the
  \<open>dict\<close>'s iteration order. \<open>lookup_loop\<close> is the \<open>for key, entry in medical_db.items()\<close>
  loop of \<open>lookup_medical_db\<close>, returning at the first key one of whose terms occurs in
  the input.
\<close>

type_synonym knowledge_base = "(ustr \<times> advice) list"

fun lookup_loop :: "knowledge_base \<Rightarrow> ustr \<Rightarrow> ustr option" where
  "lookup_loop [] user_input = None"
| "lookup_loop ((key, entry) # rest) user_input =
     (if list_ex (\<lambda>term. str_in term user_input) (terms_of key)
      then Some (format_response entry)
      else lookup_loop rest user_input)"

text \<open>
  \<open>lookup_medical_db(user_input)\<close>; the argument is a \<open>str\<close> or \<open>None\<close>. \<open>not user_input\<close>
  holds for \<open>None\<close> and for the empty string.
\<close>

definition lookup_medical_db :: "knowledge_base \<Rightarrow> ustr option \<Rightarrow> ustr option" where
  "lookup_medical_db medical_db user_input =
     (case user_input of
        None \<Rightarrow> None
      | Some s \<Rightarrow> if s = [] then None else lookup_loop medical_db (strip s))"


section \<open>core.py: loading the knowledge base\<close>

text \<open>
  Exceptions are values: a class and a message. \<open>issubclass\<close> is the part of Python's
  exception hierarchy the \<open>except\<close> clauses of the sources depend on:
  \<open>JSONDecodeError\<close> and \<open>UnicodeDecodeError\<close> derive from \<open>ValueError\<close>, and
  \<open>FileNotFoundError\<close>, \<open>PermissionError\<close> and \<open>IsADirectoryError\<close> from \<open>OSError\<close>.
\<close>

datatype exc_class =
    JSONDecodeError
  | UnicodeDecodeError
  | ValueError
  | OSError
  | FileNotFoundError
  | PermissionError
  | IsADirectoryError
  | AttributeError

datatype py_exception = Raised exc_class ustr

definition issubclass :: "exc_class \<Rightarrow> exc_class \<Rightarrow> bool" where
  "issubclass c d \<longleftrightarrow>
     c = d \<or>
     (d = ValueError \<and> (c = JSONDecodeError \<or> c = UnicodeDecodeError)) \<or>
     (d = OSError \<and> (c = FileNotFoundError \<or> c = PermissionError \<or> c = IsADirectoryError))"

text \<open>\<open>except (c1, c2) as e\<close> catches \<open>e\<close> when its class derives from one of the two.\<close>

fun caught_by :: "py_exception \<Rightarrow> exc_class list \<Rightarrow> bool" where
  "caught_by (Raised c msg) classes = list_ex (issubclass c) classes"

text \<open>
  What the file system holds at \<open>DB_PATH\<close>: nothing, or a file, given by what
  \<open>open(DB_PATH, "r", encoding="utf-8")\<close> followed by \<open>json.load(f)\<close> does with it: raise
  (\<open>OSError\<close> when it cannot be opened or read, \<open>UnicodeDecodeError\<close> when its bytes
  are not UTF-8, \<open>JSONDecodeError\<close> when the text is not JSON) or return the parsed value.
\<close>

datatype db_file = Missing | Existing "py_exception + pyval"

text \<open>
  The two messages of \<open>load_medical_db\<close>: "cannot read the medical knowledge base: "
  (followed by the exception's text) and "medical_knowledge.json not found, an empty
  knowledge base will be used".
\<close>

definition MSG_DB_UNREADABLE :: "ustr" where
  "MSG_DB_UNREADABLE =
    [0x7121, 0x6CD5, 0x8B80, 0x53D6, 0x91AB, 0x7642, 0x77E5, 0x8B58, 0x5EAB, 0x3A,
     0x20]"

definition MSG_DB_MISSING :: "ustr" where
  "MSG_DB_MISSING =
    [0x627E, 0x4E0D, 0x5230, 0x20, 0x6D, 0x65, 0x64, 0x69, 0x63, 0x61,
     0x6C, 0x5F, 0x6B, 0x6E, 0x6F, 0x77, 0x6C, 0x65, 0x64, 0x67,
     0x65, 0x2E, 0x6A, 0x73, 0x6F, 0x6E, 0xFF0C, 0x5C07, 0x4F7F, 0x7528,
     0x7A7A, 0x767D, 0x77E5, 0x8B58, 0x5EAB]"

text \<open>
  \<open>load_medical_db()\<close>: the value returned or the exception raised, and the records
  logged.
\<close>

definition load_medical_db :: "db_file \<Rightarrow> (py_exception + pyval) \<times> log_record list" where
  "load_medical_db file =
     (case file of
        Existing (Inr parsed) \<Rightarrow> (Inr parsed, [])
      | Existing (Inl (Raised c msg)) \<Rightarrow>
          if caught_by (Raised c msg) [JSONDecodeError, OSError]
          then (Inr (PDict []), [Error (MSG_DB_UNREADABLE @ msg)])
          else (Inl (Raised c msg), [])
      | Missing \<Rightarrow> (Inr (PDict []), [Warning MSG_DB_MISSING]))"

section \<open>utils.py: prompts and the generator\<close>

text \<open>ASCII literals are written as Isabelle strings and converted to code points.\<close>

definition ascii :: "string \<Rightarrow> ustr" where
  "ascii s = map of_char s"

definition MODEL :: "ustr" where
  "MODEL = ascii ''qwen:1.8b-chat''"

definition OLLAMA_URL_CLI :: "ustr" where
  "OLLAMA_URL_CLI = ascii ''http://localhost:11434/api/chat''"

definition OLLAMA_URL_WEB :: "ustr" where
  "OLLAMA_URL_WEB = ascii ''http://localhost:11434/api/generate''"

text \<open>
  \<open>FALLBACK_HINT\<close>: "please explain more simply, avoid technical terms and frightening
  diseases, in a gentle tone, for the elderly, and be sure to use traditional Chinese".
\<close>

definition FALLBACK_HINT :: "ustr" where
  "FALLBACK_HINT =
    [0x8ACB, 0x7528, 0x66F4, 0x7C21, 0x55AE, 0x7684, 0x65B9, 0x5F0F, 0x8AAA, 0x660E,
     0xFF0C, 0x907F, 0x514D, 0x63D0, 0x5230, 0x5C08, 0x696D, 0x540D, 0x8A5E, 0x8207,
     0x53EF, 0x6015, 0x75BE, 0x75C5, 0xFF0C, 0x8A9E, 0x6C23, 0x6EAB, 0x548C, 0xFF0C,
     0x91DD, 0x5C0D, 0x5E74, 0x9577, 0x8005, 0xFF0C, 0x52D9, 0x5FC5, 0x4F7F, 0x7528,
     0x6B63, 0x9AD4, 0x4E2D, 0x6587, 0x3002]"

text \<open>
  \<open>build_cli_prompt\<close> and \<open>build_web_prompt\<close> are f-strings: a fixed head, the question,
  and a closing corner bracket with a line feed.
\<close>

definition cli_prompt_head :: "ustr" where
  "cli_prompt_head =
    [0x4F60, 0x662F, 0x4E00, 0x4F4D, 0x8CBC, 0x5FC3, 0x7684, 0x5065, 0x5EB7, 0x5C0F,
     0x5E6B, 0x624B, 0xFF0C, 0x5C08, 0x9580, 0x5E6B, 0x52A9, 0x53F0, 0x7063, 0x7684,
     0x9577, 0x8F29, 0x7406, 0x89E3, 0x8EAB, 0x9AD4, 0x5C0F, 0x72C0, 0x6CC1, 0x3002,
     0xA, 0x8ACB, 0x91DD, 0x5C0D, 0x4EE5, 0x4E0B, 0x63D0, 0x554F, 0xFF0C, 0x7528,
     0x6EAB, 0x548C, 0x3001, 0x7C21, 0x55AE, 0x3001, 0x767D, 0x8A71, 0x7684, 0x8A9E,
     0x6C23, 0x8AAA, 0x660E, 0xFF0C, 0x5343, 0x842C, 0x4E0D, 0x8981, 0x63D0, 0x5230,
     0x764C, 0x75C7, 0x3001, 0x814E, 0x8870, 0x7AED, 0x3001, 0x6B7B, 0x4EA1, 0x7B49,
     0x8A5E, 0x8A9E, 0x3002, 0xA, 0x8ACB, 0x4F7F, 0x7528, 0x6B63, 0x9AD4, 0x4E2D,
     0x6587, 0x3002, 0xA, 0xA, 0x8ACB, 0x9075, 0x7167, 0x4EE5, 0x4E0B, 0x683C,
     0x5F0F, 0x56DE, 0x7B54, 0xFF1A, 0xA, 0x31, 0x2E, 0x20, 0x53EF, 0x80FD,
     0x539F, 0x56E0, 0xFF08, 0x8ACB, 0x7528, 0x300C, 0x6709, 0x53EF, 0x80FD, 0x662F,
     0x2026, 0x4E5F, 0x53EF, 0x80FD, 0x662F, 0x2026, 0x300D, 0x7684, 0x8A9E, 0x6C23,
     0xFF0C, 0x907F, 0x514D, 0x80AF, 0x5B9A, 0x8A3A, 0x65B7, 0xFF09, 0xA, 0x32,
     0x2E, 0x20, 0x5728, 0x5BB6, 0x53EF, 0x4EE5, 0x600E, 0x9EBC, 0x505A, 0xFF08,
     0x5217, 0x20, 0x32, 0x7E, 0x33, 0x20, 0x9EDE, 0xFF0C, 0x50CF, 0x662F,
     0x300C, 0x591A, 0x559D, 0x6EAB, 0x6C34, 0x300D, 0x3001, 0x300C, 0x6CE8, 0x610F,
     0x4F11, 0x606F, 0x300D, 0xFF09, 0xA, 0x33, 0x2E, 0x20, 0x4EC0, 0x9EBC,
     0x6642, 0x5019, 0x9700, 0x8981, 0x770B, 0x91AB, 0x751F, 0xFF08, 0x8209, 0x20,
     0x32, 0x20, 0x500B, 0x7C21, 0x55AE, 0x4F8B, 0x5B50, 0xFF09, 0xA, 0x34,
     0x2E, 0x20, 0x6EAB, 0x6696, 0x9F13, 0x52F5, 0x8A9E, 0xA, 0xA, 0x4EE5,
     0x300C, 0x60A8, 0x597D, 0xFF5E, 0x300D, 0x958B, 0x982D, 0xFF0C, 0x300C, 0x5982,
     0x679C, 0x9084, 0x6709, 0x5176, 0x4ED6, 0x4E0D, 0x8212, 0x670D, 0xFF0C, 0x4E5F,
     0x53EF, 0x4EE5, 0x518D, 0x554F, 0x6211, 0x5594, 0xFF0C, 0x6211, 0x6703, 0x966A,
     0x8457, 0x60A8, 0x20, 0x1F60A, 0x300D, 0x7D50, 0x5C3E, 0x3002, 0xA, 0xA,
     0x554F, 0x984C, 0x5982, 0x4E0B, 0xFF1A, 0xA, 0x300C]"

definition cli_prompt_tail :: "ustr" where
  "cli_prompt_tail =
    [0x300D, 0xA]"

definition web_prompt_head :: "ustr" where
  "web_prompt_head =
    [0x4F60, 0x662F, 0x4E00, 0x4F4D, 0x8CBC, 0x5FC3, 0x7684, 0x4E2D, 0x6587, 0x5065,
     0x5EB7, 0x52A9, 0x7406, 0xFF0C, 0x8ACB, 0x7528, 0x6EAB, 0x6696, 0x3001, 0x89AA,
     0x5207, 0x3001, 0x5BB9, 0x6613, 0x61C2, 0x7684, 0x7E41, 0x9AD4, 0x4E2D, 0x6587,
     0xFF0C, 0x5E6B, 0x52A9, 0x9577, 0x8005, 0x7406, 0x89E3, 0x4ED6, 0x5011, 0x7684,
     0x8EAB, 0x9AD4, 0x72C0, 0x6CC1, 0x3002, 0xA, 0x8ACB, 0x907F, 0x514D, 0x4F7F,
     0x7528, 0x5687, 0x4EBA, 0x7684, 0x91AB, 0x5B78, 0x8853, 0x8A9E, 0xFF0C, 0x4E26,
     0x4FDD, 0x6301, 0x8A9E, 0x6C23, 0x6EAB, 0x548C, 0x3002, 0xA, 0x8ACB, 0x4EE5,
     0x300C, 0x60A8, 0x597D, 0xFF5E, 0x300D, 0x958B, 0x982D, 0xFF0C, 0x4EE5, 0x300C,
     0x5982, 0x679C, 0x9084, 0x6709, 0x5176, 0x4ED6, 0x4E0D, 0x8212, 0x670D, 0xFF0C,
     0x4E5F, 0x53EF, 0x4EE5, 0x518D, 0x554F, 0x6211, 0x5594, 0xFF0C, 0x6211, 0x6703,
     0x966A, 0x8457, 0x60A8, 0x20, 0x1F60A, 0x300D, 0x7D50, 0x5C3E, 0x3002, 0xA,
     0xA, 0x554F, 0x984C, 0xFF1A, 0xA, 0x300C]"

definition web_prompt_tail :: "ustr" where
  "web_prompt_tail =
    [0x300D, 0xA]"

definition build_cli_prompt :: "ustr \<Rightarrow> ustr" where
  "build_cli_prompt user_question = cli_prompt_head @ user_question @ cli_prompt_tail"

definition build_web_prompt :: "ustr \<Rightarrow> ustr" where
  "build_web_prompt user_input = web_prompt_head @ user_input @ web_prompt_tail"

text \<open>
  The model server is outside the program. A \<open>generator\<close> gives, for the number of
  requests already sent, the URL and the JSON payload, what
  \<open>requests.post(...)\<close>, \<open>raise_for_status()\<close> and \<open>r.json()\<close> do: raise a
  \<open>RequestException\<close> (time-out, connection or HTTP error) or return the decoded body.
  The state threaded through the calls is the list of requests sent so far.
\<close>

datatype http_result = RequestException ustr | JsonBody pyval

type_synonym generator = "nat \<Rightarrow> ustr \<Rightarrow> pyval \<Rightarrow> http_result"

record world =
  sent :: "(ustr \<times> pyval) list"

text \<open>
  \<open>_post_request(url, payload)\<close>: \<open>None\<close> on a \<open>RequestException\<close>, the decoded body
  otherwise. Its two log calls are left out.
\<close>

definition post_request :: "generator \<Rightarrow> world \<Rightarrow> ustr \<Rightarrow> pyval \<Rightarrow> pyval \<times> world" where
  "post_request gen w url payload =
     (let w' = w\<lparr>sent := sent w @ [(url, payload)]\<rparr>
      in case gen (length (sent w)) url payload of
           RequestException e \<Rightarrow> (PNone, w')
         | JsonBody body \<Rightarrow> (body, w'))"

text \<open>
  \<open>obj.get(key, default)\<close> and \<open>obj.strip()\<close> on a decoded JSON value: only a \<open>dict\<close>
  has \<open>get\<close> and only a \<open>str\<close> has \<open>strip\<close>; on anything else the attribute
  access raises \<open>AttributeError\<close>.
\<close>

definition no_attribute :: "py_exception" where
  "no_attribute = Raised AttributeError []"

fun py_get :: "pyval \<Rightarrow> ustr \<Rightarrow> pyval \<Rightarrow> py_exception + pyval" where
  "py_get (PDict kvs) key dflt = Inr (get_or (map_of kvs key) dflt)"
| "py_get v key dflt = Inl no_attribute"

fun py_strip :: "pyval \<Rightarrow> py_exception + ustr" where
  "py_strip (PStr s) = Inr (strip s)"
| "py_strip v = Inl no_attribute"

text \<open>\<open>response.get("message", {}).get("content", "").strip()\<close>.\<close>

definition cli_answer :: "pyval \<Rightarrow> py_exception + ustr" where
  "cli_answer response =
     (case py_get response (ascii ''message'') (PDict []) of
        Inl e \<Rightarrow> Inl e
      | Inr message \<Rightarrow>
          (case py_get message (ascii ''content'') (PStr []) of
             Inl e \<Rightarrow> Inl e
           | Inr content \<Rightarrow> py_strip content))"

text \<open>\<open>response.get("response", "").strip()\<close>.\<close>

definition web_answer :: "pyval \<Rightarrow> py_exception + ustr" where
  "web_answer response =
     (case py_get response (ascii ''response'') (PStr []) of
        Inl e \<Rightarrow> Inl e
      | Inr content \<Rightarrow> py_strip content)"

text \<open>
  The two strings the wrappers return instead of an answer: "apologies, I cannot give
  suitable advice at the moment, please consult a doctor" and "system error, please try
  again later" (after a warning sign).
\<close>

definition APOLOGY :: "ustr" where
  "APOLOGY =
    [0x62B1, 0x6B49, 0xFF0C, 0x6211, 0x76EE, 0x524D, 0x7121, 0x6CD5, 0x7D66, 0x51FA,
     0x5408, 0x9069, 0x7684, 0x5EFA, 0x8B70, 0xFF0C, 0x8ACB, 0x8AEE, 0x8A62, 0x91AB,
     0x751F, 0x3002]"

definition SYSTEM_ERROR :: "ustr" where
  "SYSTEM_ERROR =
    [0x26A0, 0xFE0F, 0x20, 0x7CFB, 0x7D71, 0x932F, 0x8AA4, 0xFF0C, 0x8ACB, 0x7A0D,
     0x5F8C, 0x518D, 0x8A66, 0x3002]"

text \<open>
  \<open>to_traditional(text)\<close> is \<open>cc.convert(text)\<close> of the OpenCC library, which is not part
  of the sources: the conversion is a parameter \<open>cc\<close> of everything that calls it.
\<close>

type_synonym converter = "ustr \<Rightarrow> ustr"

definition to_traditional :: "converter \<Rightarrow> ustr \<Rightarrow> ustr" where
  "to_traditional cc text = cc text"

definition cli_payload :: "ustr \<Rightarrow> pyval" where
  "cli_payload prompt =
     PDict [(ascii ''model'', PStr MODEL),
            (ascii ''messages'',
               PList [PDict [(ascii ''role'', PStr (ascii ''user'')),
                             (ascii ''content'', PStr prompt)] ]),
            (ascii ''stream'', PBool False)]"

text \<open>
  \<open>query_ollama_cli(prompt, use_fallback=False)\<close>. It calls itself once, with
  \<open>use_fallback=True\<close>, when the first answer is not valid.
\<close>

function query_ollama_cli ::
  "converter \<Rightarrow> generator \<Rightarrow> world \<Rightarrow> ustr \<Rightarrow> bool \<Rightarrow> (py_exception + ustr) \<times> world" where
  "query_ollama_cli cc gen w prompt use_fallback =
     (case post_request gen w OLLAMA_URL_CLI (cli_payload prompt) of
        (response, w1) \<Rightarrow>
          if truthy response then
            (case cli_answer response of
               Inl e \<Rightarrow> (Inl e, w1)
             | Inr answer \<Rightarrow>
                 if is_valid_response (PStr answer) 50 then (Inr (to_traditional cc answer), w1)
                 else if \<not> use_fallback then
                   query_ollama_cli cc gen w1 (prompt @ [0xA, 0xA] @ FALLBACK_HINT) True
                 else (Inr APOLOGY, w1))
          else (Inr SYSTEM_ERROR, w1))"
  by pat_completeness auto
termination
  by (relation "measure (\<lambda>(cc, gen, w, prompt, use_fallback). if use_fallback then 0 else 1)") auto

definition FULL_STOP :: "ustr" where
  "FULL_STOP =
    [0x3002]"

definition web_payload :: "ustr \<Rightarrow> pyval" where
  "web_payload prompt =
     PDict [(ascii ''model'', PStr MODEL),
            (ascii ''prompt'', PStr prompt),
            (ascii ''stream'', PBool False)]"

text \<open>\<open>query_ollama_web(user_input, use_fallback=False)\<close>.\<close>

function query_ollama_web ::
  "converter \<Rightarrow> generator \<Rightarrow> world \<Rightarrow> ustr \<Rightarrow> bool \<Rightarrow> (py_exception + ustr) \<times> world" where
  "query_ollama_web cc gen w user_input use_fallback =
     (let prompt = build_web_prompt user_input
      in case post_request gen w OLLAMA_URL_WEB (web_payload prompt) of
        (response, w1) \<Rightarrow>
          if truthy response then
            (case web_answer response of
               Inl e \<Rightarrow> (Inl e, w1)
             | Inr answer \<Rightarrow>
                 if is_valid_response (PStr answer) 50 then (Inr (to_traditional cc answer), w1)
                 else if \<not> use_fallback then
                   query_ollama_web cc gen w1 (user_input @ FULL_STOP @ FALLBACK_HINT) True
                 else (Inr APOLOGY, w1))
          else (Inr SYSTEM_ERROR, w1))"
  by pat_completeness auto
termination
  by (relation "measure (\<lambda>(cc, gen, w, user_input, use_fallback). if use_fallback then 0 else 1)") auto

section \<open>cli.py and app.py: one request\<close>

text \<open>
  What the user gets for one request: the program stops (\<open>exit\<close>), a notice that the
  input was empty, the knowledge base's formatted record, or a reply produced on the
  generator path. Banners, separators and the web page's history list are left out.
\<close>

datatype outcome = Stopped | EmptyNotice | DbResult ustr | ModelReply ustr

text \<open>
  \<open>question.lower() == "exit"\<close>. Only the ASCII capitals are lowered here: no other code
  point's lower-case form consists of the letters \<open>e\<close>, \<open>x\<close>, \<open>i\<close>, \<open>t\<close>, so the
  comparison has the same result as with the full \<open>str.lower\<close>.
\<close>

definition ascii_lower :: "nat \<Rightarrow> nat" where
  "ascii_lower c = (if 0x41 \<le> c \<and> c \<le> 0x5A then c + 0x20 else c)"

definition is_exit :: "ustr \<Rightarrow> bool" where
  "is_exit question \<longleftrightarrow> map ascii_lower question = ascii ''exit''"

text \<open>
  Lines 50 to 62 of \<open>cli.py\<close>: the prompt, the first call of the wrapper, the second call
  with the hint when the first reply is not valid, and the fallback template when the
  reply is still not valid. The result is the value of \<open>reply\<close> before the final
  \<open>to_traditional\<close>.
\<close>

definition cli_candidate ::
  "converter \<Rightarrow> generator \<Rightarrow> world \<Rightarrow> ustr \<Rightarrow> (py_exception + ustr) \<times> world" where
  "cli_candidate cc gen w question =
     (let prompt = build_cli_prompt question
      in case query_ollama_cli cc gen w prompt False of
           (Inl e, w1) \<Rightarrow> (Inl e, w1)
         | (Inr reply, w1) \<Rightarrow>
             (case (if \<not> is_valid_response (PStr reply) 50
                    then query_ollama_cli cc gen w1 (prompt @ [0xA] @ FALLBACK_HINT) False
                    else (Inr reply, w1)) of
                (Inl e, w2) \<Rightarrow> (Inl e, w2)
              | (Inr reply, w2) \<Rightarrow>
                  (Inr (if \<not> is_valid_response (PStr reply) 50
                        then fallback_response question else reply), w2)))"

text \<open>
  One iteration of the \<open>while True\<close> loop of \<open>run_cli\<close> on a line read from the console.
\<close>

definition run_cli_iteration ::
  "converter \<Rightarrow> knowledge_base \<Rightarrow> generator \<Rightarrow> world \<Rightarrow> ustr \<Rightarrow>
     (py_exception + outcome) \<times> world" where
  "run_cli_iteration cc medical_db gen w line =
     (let question = strip line
      in if question = [] then (Inr EmptyNotice, w)
         else if is_exit question then (Inr Stopped, w)
         else case lookup_medical_db medical_db (Some question) of
                Some db_reply \<Rightarrow>
                  if db_reply \<noteq> [] then (Inr (DbResult db_reply), w)
                  else (case cli_candidate cc gen w question of
                          (Inl e, w') \<Rightarrow> (Inl e, w')
                        | (Inr reply, w') \<Rightarrow> (Inr (ModelReply (to_traditional cc reply)), w'))
              | None \<Rightarrow>
                  (case cli_candidate cc gen w question of
                     (Inl e, w') \<Rightarrow> (Inl e, w')
                   | (Inr reply, w') \<Rightarrow> (Inr (ModelReply (to_traditional cc reply)), w')))"

text \<open>
  \<open>run_cli()\<close>: the loop over the console's input. An element \<open>None\<close> is an
  \<open>EOFError\<close> or \<open>KeyboardInterrupt\<close> at the prompt; the end of the list is the end of
  the input. The result is the exception that left the loop, if any, and what the user
  got for each line.
\<close>

fun run_cli ::
  "converter \<Rightarrow> knowledge_base \<Rightarrow> generator \<Rightarrow> world \<Rightarrow> ustr option list \<Rightarrow>
     (py_exception option \<times> outcome list) \<times> world" where
  "run_cli cc medical_db gen w [] = ((None, []), w)"
| "run_cli cc medical_db gen w (None # rest) = ((None, []), w)"
| "run_cli cc medical_db gen w (Some line # rest) =
     (case run_cli_iteration cc medical_db gen w line of
        (Inl e, w') \<Rightarrow> ((Some e, []), w')
      | (Inr Stopped, w') \<Rightarrow> ((None, [Stopped]), w')
      | (Inr out, w') \<Rightarrow>
          (case run_cli cc medical_db gen w' rest of
             ((e, outs), w'') \<Rightarrow> ((e, out # outs), w'')))"

text \<open>
  Lines 44 to 50 of \<open>app.py\<close>: as in \<open>cli.py\<close>, with \<open>query_ollama_web\<close> and the raw
  input.
\<close>

definition web_candidate ::
  "converter \<Rightarrow> generator \<Rightarrow> world \<Rightarrow> ustr \<Rightarrow> (py_exception + ustr) \<times> world" where
  "web_candidate cc gen w user_input =
     (case query_ollama_web cc gen w user_input False of
        (Inl e, w1) \<Rightarrow> (Inl e, w1)
      | (Inr reply, w1) \<Rightarrow>
          (case (if \<not> is_valid_response (PStr reply) 50
                 then query_ollama_web cc gen w1 (user_input @ [0xA] @ FALLBACK_HINT) False
                 else (Inr reply, w1)) of
             (Inl e, w2) \<Rightarrow> (Inl e, w2)
           | (Inr reply, w2) \<Rightarrow>
               (Inr (if \<not> is_valid_response (PStr reply) 50
                     then fallback_response user_input else reply), w2)))"

text \<open>\<open>run_web()\<close> when the button is pressed with \<open>user_input\<close> in the text area.\<close>

definition run_web ::
  "converter \<Rightarrow> knowledge_base \<Rightarrow> generator \<Rightarrow> world \<Rightarrow> ustr \<Rightarrow>
     (py_exception + outcome) \<times> world" where
  "run_web cc medical_db gen w user_input =
     (if strip user_input = [] then (Inr EmptyNotice, w)
      else case lookup_medical_db medical_db (Some user_input) of
             Some db_reply \<Rightarrow>
               if db_reply \<noteq> [] then (Inr (DbResult db_reply), w)
               else (case web_candidate cc gen w user_input of
                       (Inl e, w') \<Rightarrow> (Inl e, w')
                     | (Inr reply, w') \<Rightarrow> (Inr (ModelReply (to_traditional cc reply)), w'))
           | None \<Rightarrow>
               (case web_candidate cc gen w user_input of
                  (Inl e, w') \<Rightarrow> (Inl e, w')
                | (Inr reply, w') \<Rightarrow> (Inr (ModelReply (to_traditional cc reply)), w')))"

section \<open>Example inputs\<close>

text \<open>
  A clean text of 60 code points in traditional script ("hello, you are advised to drink
  warm water, rest and stay cheerful", repeated), and a text of 60 code points that
  starts with the one-character word for cancer.
\<close>

definition clean_sixty :: "ustr" where
  "clean_sixty =
    [0x60A8, 0x597D, 0xFF0C, 0x5EFA, 0x8B70, 0x60A8, 0x591A, 0x559D, 0x6EAB, 0x958B,
     0x6C34, 0xFF0C, 0x6CE8, 0x610F, 0x4F11, 0x606F, 0xFF0C, 0x4FDD, 0x6301, 0x5FC3,
     0x60C5, 0x6109, 0x5FEB, 0x3002, 0x60A8, 0x597D, 0xFF0C, 0x5EFA, 0x8B70, 0x60A8,
     0x591A, 0x559D, 0x6EAB, 0x958B, 0x6C34, 0xFF0C, 0x6CE8, 0x610F, 0x4F11, 0x606F,
     0xFF0C, 0x4FDD, 0x6301, 0x5FC3, 0x60C5, 0x6109, 0x5FEB, 0x3002, 0x60A8, 0x597D,
     0xFF0C, 0x5EFA, 0x8B70, 0x60A8, 0x591A, 0x559D, 0x6EAB, 0x958B, 0x6C34, 0xFF0C]"

definition cancer_sixty :: "ustr" where
  "cancer_sixty =
    [0x764C, 0x8ACB, 0x591A, 0x4F11, 0x606F, 0x8ACB, 0x591A, 0x4F11, 0x606F, 0x8ACB,
     0x591A, 0x4F11, 0x606F, 0x8ACB, 0x591A, 0x4F11, 0x606F, 0x8ACB, 0x591A, 0x4F11,
     0x606F, 0x8ACB, 0x591A, 0x4F11, 0x606F, 0x8ACB, 0x591A, 0x4F11, 0x606F, 0x8ACB,
     0x591A, 0x4F11, 0x606F, 0x8ACB, 0x591A, 0x4F11, 0x606F, 0x8ACB, 0x591A, 0x4F11,
     0x606F, 0x8ACB, 0x591A, 0x4F11, 0x606F, 0x8ACB, 0x591A, 0x4F11, 0x606F, 0x8ACB,
     0x591A, 0x4F11, 0x606F, 0x8ACB, 0x591A, 0x4F11, 0x606F, 0x8ACB, 0x591A, 0x4F11]"

text \<open>
  The two keywords "stomach ache" and "diarrhoea" of the synonym table, the synonym of the
  second that the examples use, and two user texts: "my stomach aches and I have
  diarrhoea" (which contains both keywords) and "the diarrhoea is severe" (which contains
  the synonym but neither keyword).
\<close>

definition stomach_ache :: "ustr" where
  "stomach_ache =
    [0x809A, 0x5B50, 0x75DB]"

definition diarrhoea :: "ustr" where
  "diarrhoea =
    [0x62C9, 0x809A, 0x5B50]"

definition dizziness :: "ustr" where
  "dizziness =
    [0x982D, 0x6688]"

definition diarrhoea_synonym :: "ustr" where
  "diarrhoea_synonym =
    [0x8179, 0x7009]"

definition input_both :: "ustr" where
  "input_both =
    [0x6211, 0x809A, 0x5B50, 0x75DB, 0x53C8, 0x62C9, 0x809A, 0x5B50]"

definition input_synonym :: "ustr" where
  "input_synonym =
    [0x8179, 0x7009, 0x5F88, 0x56B4, 0x91CD]"

text \<open>
  A knowledge base with the three keywords of the synonym table in the table's order: an
  entry with one cause ("ate too fast") and one piece of advice ("drink warm water"), an
  entry with an encouragement only ("get well soon"), and an empty entry.
\<close>

definition entry_stomach :: "advice" where
  "entry_stomach =
    \<lparr>possible_causes = Some [ [0x5403, 0x592A, 0x5FEB] ],
     self_care = Some [ [0x591A, 0x559D, 0x6EAB, 0x6C34] ],
     when_to_see_doctor = Some [], encouragement = None\<rparr>"

definition entry_diarrhoea :: "advice" where
  "entry_diarrhoea =
    \<lparr>possible_causes = None, self_care = None, when_to_see_doctor = None,
     encouragement = Some [0x65E9, 0x65E5, 0x5EB7, 0x5FA9]\<rparr>"

definition entry_dizzy :: "advice" where
  "entry_dizzy =
    \<lparr>possible_causes = None, self_care = None, when_to_see_doctor = None,
     encouragement = None\<rparr>"

definition example_db :: "knowledge_base" where
  "example_db =
    [(stomach_ache, entry_stomach), (diarrhoea, entry_diarrhoea), (dizziness, entry_dizzy)]"

text \<open>
  A user text that no keyword of \<open>example_db\<close> matches ("headache"), and the state in
  which no request has been sent.
\<close>

definition headache :: "ustr" where
  "headache = [0x982D, 0x75DB]"

definition world0 :: "world" where
  "world0 = \<lparr>sent = []\<rparr>"

text \<open>
  Two generators: one whose every answer, in the shape of either endpoint, is the
  two-character text "too short", and one that is unreachable.
\<close>

definition gen_rejected :: "generator" where
  "gen_rejected n url payload =
     JsonBody (PDict [(ascii ''message'', PDict [(ascii ''content'', PStr [0x592A, 0x77ED])]),
                      (ascii ''response'', PStr [0x592A, 0x77ED])])"

definition gen_down :: "generator" where
  "gen_down n url payload = RequestException []"

text \<open>
  A conversion that turns the simplified character U+53D1 into the traditional U+767C, as
  OpenCC's \<open>s2t\<close> does, and leaves every other code point as it is; and a knowledge
  base whose only entry, under the keyword "dizziness", lists one cause written with that
  simplified character ("inflammation").
\<close>

definition s2t_sample :: "converter" where
  "s2t_sample text = map (\<lambda>c. if c = 0x53D1 then 0x767C else c) text"

definition entry_simplified :: "advice" where
  "entry_simplified =
    \<lparr>possible_causes = Some [ [0x53D1, 0x708E] ], self_care = None, when_to_see_doctor = None,
     encouragement = None\<rparr>"

definition db_simplified :: "knowledge_base" where
  "db_simplified = [(dizziness, entry_simplified)]"

text \<open>
  A generator that answers every request with status 200 and a JSON object whose
  \<open>message\<close> and \<open>response\<close> fields are \<open>null\<close>.
\<close>

definition gen_null :: "generator" where
  "gen_null n url payload =
     JsonBody (PDict [(ascii ''message'', PNone), (ascii ''response'', PNone)])"


section \<open>Strings: containment and stripping\<close>

lemma startswith_prefix: "startswith t w = prefix w t"
  by (induction t w rule: startswith.induct) auto

lemma str_in_sublist: "str_in w t = sublist w t"
  by (induction t) (auto simp: startswith_prefix sublist_Cons_right)

text \<open>
  A word that does not contain the code point \<open>s\<close> cannot lie across an occurrence of
  \<open>s\<close>: it occurs in the text before it or in the text after it.
\<close>

lemma sublist_sep:
  assumes "s \<notin> set w"
  shows "sublist w (xs @ s # ys) \<longleftrightarrow> sublist w xs \<or> sublist w ys"
proof
  assume "sublist w (xs @ s # ys)"
  then consider "sublist w xs" | "sublist w (s # ys)"
    | w1 w2 where "w = w1 @ w2" "suffix w1 xs" "prefix w2 (s # ys)"
    by (auto simp: sublist_append)
  then show "sublist w xs \<or> sublist w ys"
  proof cases
    case 1
    then show ?thesis by simp
  next
    case 2
    then show ?thesis using assms
      by (cases w) (auto simp: sublist_Cons_right)
  next
    case 3
    show ?thesis
    proof (cases w2)
      case Nil
      with 3 show ?thesis by auto
    next
      case (Cons a list)
      with 3 assms show ?thesis by auto
    qed
  qed
next
  assume "sublist w xs \<or> sublist w ys"
  then show "sublist w (xs @ s # ys)"
    by (auto simp: sublist_append sublist_Cons_right)
qed

lemma str_in_sep:
  "s \<notin> set w \<Longrightarrow> str_in w (xs @ s # ys) \<longleftrightarrow> str_in w xs \<or> str_in w ys"
  by (simp add: str_in_sublist sublist_sep)

lemma strip_id:
  assumes "t \<noteq> []" "\<not> isspace (hd t)" "\<not> isspace (last t)"
  shows "strip t = t"
proof -
  have "lstrip t = t"
    using assms by (simp add: lstrip_def dropWhile_eq_self_iff)
  moreover have "dropWhile isspace (rev t) = rev t"
    using assms by (simp add: dropWhile_eq_self_iff hd_rev)
  then have "rstrip t = t"
    by (simp add: rstrip_def)
  ultimately show ?thesis by (simp add: strip_def)
qed

lemma simplified_append:
  "contains_simplified_chinese (a @ b) \<longleftrightarrow>
     contains_simplified_chinese a \<or> contains_simplified_chinese b"
  by (simp add: contains_simplified_chinese_def)

section \<open>The fallback template and the validator\<close>

text \<open>
  No danger or nonsense word contains a corner bracket, and none occurs in the fixed
  text before the opening bracket or after the closing one.
\<close>

lemma fallback_words:
  "list_all (\<lambda>w. 0x300C \<notin> set w \<and> 0x300D \<notin> set w \<and> \<not> str_in w (butlast fallback_head)
      \<and> \<not> str_in w (tl fallback_tail)) (DANGER_WORDS @ NONSENSE_WORDS)"
  by (simp add: DANGER_WORDS_def NONSENSE_WORDS_def fallback_head_def fallback_tail_def)

lemma fallback_split:
  "fallback_response u = butlast fallback_head @ 0x300C # (u @ 0x300D # tl fallback_tail)"
  by (simp add: fallback_response_def fallback_head_def fallback_tail_def)

lemma fallback_word_iff:
  assumes "w \<in> set (DANGER_WORDS @ NONSENSE_WORDS)"
  shows "str_in w (fallback_response u) \<longleftrightarrow> str_in w u"
proof -
  from assms fallback_words
  have w: "0x300C \<notin> set w" "0x300D \<notin> set w" "\<not> str_in w (butlast fallback_head)"
    "\<not> str_in w (tl fallback_tail)"
    unfolding list_all_iff by blast+
  show ?thesis
    unfolding fallback_split using w by (simp add: str_in_sep)
qed

lemma fallback_any_word:
  "list_ex (\<lambda>w. str_in w (fallback_response u)) (DANGER_WORDS @ NONSENSE_WORDS)
     \<longleftrightarrow> list_ex (\<lambda>w. str_in w u) (DANGER_WORDS @ NONSENSE_WORDS)"
  unfolding list_ex_iff using fallback_word_iff by blast

lemma fallback_head_tail_simplified:
  "\<not> contains_simplified_chinese fallback_head" "\<not> contains_simplified_chinese fallback_tail"
  by (simp_all add: contains_simplified_chinese_def fallback_head_def fallback_tail_def
      SIMPLIFIED_CHARS_def)

lemma fallback_simplified:
  "contains_simplified_chinese (fallback_response u) \<longleftrightarrow> contains_simplified_chinese u"
  by (simp add: fallback_response_def simplified_append fallback_head_tail_simplified)

lemma fallback_length: "length (fallback_response u) = length u + 100"
  by (simp add: fallback_response_def fallback_head_def fallback_tail_def)

lemma fallback_nonempty: "fallback_response u \<noteq> []"
  by (simp add: fallback_response_def fallback_head_def)

lemma fallback_strip: "strip (fallback_response u) = fallback_response u"
proof (rule strip_id)
  show "fallback_response u \<noteq> []"
    by (rule fallback_nonempty)
  show "\<not> isspace (hd (fallback_response u))"
    by (simp add: fallback_response_def fallback_head_def isspace_def)
  have "last (fallback_response u) = last fallback_tail"
    by (simp add: fallback_response_def fallback_tail_def)
  then show "\<not> isspace (last (fallback_response u))"
    by (simp add: fallback_tail_def isspace_def)
qed

lemma fallback_valid_iff:
  "is_valid_response (PStr (fallback_response u)) 50 \<longleftrightarrow>
     \<not> list_ex (\<lambda>w. str_in w u) (DANGER_WORDS @ NONSENSE_WORDS) \<and>
     \<not> contains_simplified_chinese u"
  using fallback_nonempty [of u]
  by (simp add: is_valid_response_def fallback_any_word fallback_simplified fallback_strip
      fallback_length del: list_ex_append)

text \<open>
  Claim C1, as stated: for every user text, the fallback text passes the validator with
  the default minimum length 50 and contains the user text. The first half fails: the
  template echoes the user's words, so a user text that is itself a danger word (here the
  one-character word for cancer) makes the fallback text fail the validator.
\<close>

theorem C1_fallback_rejected_counterexample:
  "\<not> is_valid_response (PStr (fallback_response [0x764C])) 50"
  by (simp add: fallback_valid_iff DANGER_WORDS_def)

text \<open>
  Claim C1, amended: the fallback text always contains the user text, and it passes the
  validator with minimum length 50 exactly when the user text contains no danger word, no
  nonsense word and no character of the simplified set. The template's own words, its
  script and its length (100 code points besides the user text) never cause a rejection.
\<close>

theorem C1_fallback_valid_iff_input_clean:
  "str_in u (fallback_response u) \<and>
   (is_valid_response (PStr (fallback_response u)) 50 \<longleftrightarrow>
      \<not> list_ex (\<lambda>w. str_in w u) (DANGER_WORDS @ NONSENSE_WORDS) \<and>
      \<not> contains_simplified_chinese u)"
proof
  show "str_in u (fallback_response u)"
    by (simp add: str_in_sublist fallback_response_def)
  show "is_valid_response (PStr (fallback_response u)) 50 \<longleftrightarrow>
      \<not> list_ex (\<lambda>w. str_in w u) (DANGER_WORDS @ NONSENSE_WORDS) \<and>
      \<not> contains_simplified_chinese u"
    by (rule fallback_valid_iff)
qed

theorem C1_fallback_valid_witness:
  "str_in [0x982D, 0x75DB] (fallback_response [0x982D, 0x75DB]) \<and>
   is_valid_response (PStr (fallback_response [0x982D, 0x75DB])) 50"
  using C1_fallback_valid_iff_input_clean [of "[0x982D, 0x75DB]"]
  by (simp add: DANGER_WORDS_def NONSENSE_WORDS_def contains_simplified_chinese_def
      SIMPLIFIED_CHARS_def)

section \<open>The validator\<close>

lemma is_valid_response_iff:
  "is_valid_response v n \<longleftrightarrow>
     (\<exists>s. v = PStr s \<and> s \<noteq> [] \<and>
          \<not> list_ex (\<lambda>w. str_in w s) DANGER_WORDS \<and>
          \<not> list_ex (\<lambda>w. str_in w s) NONSENSE_WORDS \<and>
          \<not> list_ex (\<lambda>c. c \<in> set SIMPLIFIED_CHARS) s \<and>
          n \<le> int (length (strip s)))"
  by (cases v) (auto simp: is_valid_response_def contains_simplified_chinese_def)

lemma too_short_rejected: "\<not> is_valid_response (PStr [0x592A, 0x77ED]) 50"
proof -
  have "strip [0x592A, 0x77ED] = [0x592A, 0x77ED]"
    by (simp add: strip_def lstrip_def rstrip_def isspace_def)
  then show ?thesis
    by (simp add: is_valid_response_iff)
qed

lemma cancer_rejected: "str_in [0x764C] s \<Longrightarrow> \<not> is_valid_response (PStr s) n"
  by (simp add: is_valid_response_iff DANGER_WORDS_def)

lemma clean_sixty_strip: "strip clean_sixty = clean_sixty"
  by (rule strip_id) (simp_all add: clean_sixty_def isspace_def)

lemma clean_sixty_length: "length clean_sixty = 60"
  by (simp add: clean_sixty_def)

lemma clean_sixty_words:
  "\<not> list_ex (\<lambda>w. str_in w clean_sixty) DANGER_WORDS"
  "\<not> list_ex (\<lambda>w. str_in w clean_sixty) NONSENSE_WORDS"
  by (simp_all add: clean_sixty_def DANGER_WORDS_def NONSENSE_WORDS_def)

lemma clean_sixty_script: "\<not> list_ex (\<lambda>c. c \<in> set SIMPLIFIED_CHARS) clean_sixty"
  by (simp add: clean_sixty_def SIMPLIFIED_CHARS_def)

lemma clean_sixty_nonempty: "clean_sixty \<noteq> []"
  by (simp add: clean_sixty_def)

lemma clean_sixty_valid: "is_valid_response (PStr clean_sixty) 50"
  using clean_sixty_words clean_sixty_script clean_sixty_nonempty
  by (simp add: is_valid_response_iff clean_sixty_strip clean_sixty_length)

text \<open>
  Claim C4: for every value and every minimum length, \<open>is_valid_response\<close> returns true
  exactly when the value is a non-empty string that contains no danger word, no nonsense
  word and no character of the simplified set, and whose stripped length is at least the
  minimum. In particular, with the default minimum 50: the empty string is rejected; the
  two-character text "too short" is rejected; every text of 60 code points that contains
  the word for cancer is rejected; every text whose checks are clean and whose stripped
  length is 60 is accepted, and \<open>clean_sixty\<close> is such a text.
\<close>

theorem C4_is_valid_response_iff_all_checks:
  "(is_valid_response v n \<longleftrightarrow>
      (\<exists>s. v = PStr s \<and> s \<noteq> [] \<and>
           \<not> list_ex (\<lambda>w. str_in w s) DANGER_WORDS \<and>
           \<not> list_ex (\<lambda>w. str_in w s) NONSENSE_WORDS \<and>
           \<not> list_ex (\<lambda>c. c \<in> set SIMPLIFIED_CHARS) s \<and>
           n \<le> int (length (strip s)))) \<and>
   \<not> is_valid_response (PStr []) 50 \<and>
   \<not> is_valid_response (PStr [0x592A, 0x77ED]) 50 \<and>
   (length t = 60 \<and> str_in [0x764C] t \<longrightarrow> \<not> is_valid_response (PStr t) 50) \<and>
   (length (strip u) = 60 \<and>
      \<not> list_ex (\<lambda>w. str_in w u) DANGER_WORDS \<and>
      \<not> list_ex (\<lambda>w. str_in w u) NONSENSE_WORDS \<and>
      \<not> list_ex (\<lambda>c. c \<in> set SIMPLIFIED_CHARS) u \<longrightarrow> is_valid_response (PStr u) 50) \<and>
   length clean_sixty = 60 \<and> is_valid_response (PStr clean_sixty) 50"
proof (intro conjI impI)
  show "is_valid_response v n \<longleftrightarrow>
      (\<exists>s. v = PStr s \<and> s \<noteq> [] \<and>
           \<not> list_ex (\<lambda>w. str_in w s) DANGER_WORDS \<and>
           \<not> list_ex (\<lambda>w. str_in w s) NONSENSE_WORDS \<and>
           \<not> list_ex (\<lambda>c. c \<in> set SIMPLIFIED_CHARS) s \<and>
           n \<le> int (length (strip s)))"
    by (rule is_valid_response_iff)
  show "\<not> is_valid_response (PStr []) 50"
    by (simp add: is_valid_response_iff)
  show "\<not> is_valid_response (PStr [0x592A, 0x77ED]) 50"
    by (rule too_short_rejected)
  show "\<not> is_valid_response (PStr t) 50" if "length t = 60 \<and> str_in [0x764C] t"
    using that by (simp add: cancer_rejected)
  show "is_valid_response (PStr u) 50"
    if "length (strip u) = 60 \<and>
      \<not> list_ex (\<lambda>w. str_in w u) DANGER_WORDS \<and>
      \<not> list_ex (\<lambda>w. str_in w u) NONSENSE_WORDS \<and>
      \<not> list_ex (\<lambda>c. c \<in> set SIMPLIFIED_CHARS) u"
  proof -
    from that have "u \<noteq> []"
      by (auto simp: strip_def lstrip_def rstrip_def)
    with that show ?thesis
      by (simp add: is_valid_response_iff)
  qed
  show "length clean_sixty = 60"
    by (rule clean_sixty_length)
  show "is_valid_response (PStr clean_sixty) 50"
    by (rule clean_sixty_valid)
qed

theorem C4_is_valid_response_witness:
  "length cancer_sixty = 60 \<and> str_in [0x764C] cancer_sixty \<and>
   \<not> is_valid_response (PStr cancer_sixty) 50 \<and>
   length (strip clean_sixty) = 60 \<and> is_valid_response (PStr clean_sixty) 50"
proof -
  have a: "length cancer_sixty = 60 \<and> str_in [0x764C] cancer_sixty"
    by (simp add: cancer_sixty_def)
  have b: "length (strip clean_sixty) = 60"
    by (simp add: clean_sixty_strip clean_sixty_length)
  from C4_is_valid_response_iff_all_checks [of "PStr clean_sixty" 50 cancer_sixty clean_sixty] a b
  show ?thesis
    by blast
qed

section \<open>The validator's result and the specification's verdict\<close>

lemma logged_fst: "fst (is_valid_response_logged v n) = is_valid_response v n"
  by (cases v) (simp_all add: is_valid_response_logged_def is_valid_response_def)

lemma logged_verdict:
  "is_valid_response_logged v n =
     (spec_validate v n = Accepted,
      case spec_validate v n of
        Accepted \<Rightarrow> []
      | Rejected empty_or_non_text \<Rightarrow> []
      | Rejected contains_unsafe_term \<Rightarrow> [Warning MSG_DANGER_OR_NONSENSE]
      | Rejected contains_nonsense_term \<Rightarrow> [Warning MSG_DANGER_OR_NONSENSE]
      | Rejected contains_wrong_script \<Rightarrow> [Warning MSG_SIMPLIFIED]
      | Rejected too_short \<Rightarrow> [Warning MSG_TOO_SHORT])"
  by (cases v)
    (simp_all add: is_valid_response_logged_def spec_validate_def contains_simplified_chinese_def)

text \<open>
  Claim C9, as stated: the validator returns a tagged verdict that carries the reason of
  the first failing check, never a bare boolean. The code returns a boolean and logs a
  warning. On the word for cancer (a danger word) and on the nonsense phrase "dripping
  water" the boolean and the logged record are the same, although the verdicts of the
  specification differ, so the reason cannot be recovered from what the code returns and
  logs; on the empty string nothing is logged at all.
\<close>

theorem C9_reason_not_returned_counterexample:
  "is_valid_response_logged (PStr [0x764C]) 50 =
     is_valid_response_logged (PStr [0x6EF4, 0x6C34]) 50 \<and>
   spec_validate (PStr [0x764C]) 50 = Rejected contains_unsafe_term \<and>
   spec_validate (PStr [0x6EF4, 0x6C34]) 50 = Rejected contains_nonsense_term \<and>
   is_valid_response_logged (PStr []) 50 = (False, [])"
proof -
  have a: "spec_validate (PStr [0x764C]) 50 = Rejected contains_unsafe_term"
    by (simp add: spec_validate_def DANGER_WORDS_def)
  have b: "spec_validate (PStr [0x6EF4, 0x6C34]) 50 = Rejected contains_nonsense_term"
    by (simp add: spec_validate_def DANGER_WORDS_def NONSENSE_WORDS_def)
  have c: "spec_validate (PStr []) 50 = Rejected empty_or_non_text"
    by (simp add: spec_validate_def)
  show ?thesis
    by (simp add: logged_verdict a b c)
qed

text \<open>
  Claim C9, amended: \<open>is_valid_response\<close> returns a bare boolean, true exactly when the
  five checks of the specification, taken in its order with the first failing one
  deciding, end in \<open>Accepted\<close>. The reason of a rejection is not returned; it shows only
  in the warning logged: none for an empty or non-text value, one shared message for a
  danger word and for a nonsense word, one for a simplified character, one for a text
  that is too short.
\<close>

theorem C9_boolean_and_log_from_verdict:
  "is_valid_response v n = (spec_validate v n = Accepted) \<and>
   is_valid_response_logged v n =
     (spec_validate v n = Accepted,
      case spec_validate v n of
        Accepted \<Rightarrow> []
      | Rejected empty_or_non_text \<Rightarrow> []
      | Rejected contains_unsafe_term \<Rightarrow> [Warning MSG_DANGER_OR_NONSENSE]
      | Rejected contains_nonsense_term \<Rightarrow> [Warning MSG_DANGER_OR_NONSENSE]
      | Rejected contains_wrong_script \<Rightarrow> [Warning MSG_SIMPLIFIED]
      | Rejected too_short \<Rightarrow> [Warning MSG_TOO_SHORT])"
proof
  have "is_valid_response v n = fst (is_valid_response_logged v n)"
    by (simp add: logged_fst)
  then show "is_valid_response v n = (spec_validate v n = Accepted)"
    by (simp add: logged_verdict)
  show "is_valid_response_logged v n =
     (spec_validate v n = Accepted,
      case spec_validate v n of
        Accepted \<Rightarrow> []
      | Rejected empty_or_non_text \<Rightarrow> []
      | Rejected contains_unsafe_term \<Rightarrow> [Warning MSG_DANGER_OR_NONSENSE]
      | Rejected contains_nonsense_term \<Rightarrow> [Warning MSG_DANGER_OR_NONSENSE]
      | Rejected contains_wrong_script \<Rightarrow> [Warning MSG_SIMPLIFIED]
      | Rejected too_short \<Rightarrow> [Warning MSG_TOO_SHORT])"
    by (rule logged_verdict)
qed

theorem C9_boolean_and_log_witness:
  "\<not> is_valid_response (PStr [0x592A, 0x77ED]) 50 \<and>
   spec_validate (PStr [0x592A, 0x77ED]) 50 = Rejected too_short \<and>
   is_valid_response_logged (PStr [0x592A, 0x77ED]) 50 = (False, [Warning MSG_TOO_SHORT])"
proof -
  have "spec_validate (PStr [0x592A, 0x77ED]) 50 = Rejected too_short"
    by (simp add: spec_validate_def DANGER_WORDS_def NONSENSE_WORDS_def SIMPLIFIED_CHARS_def
        strip_def lstrip_def rstrip_def isspace_def)
  with C9_boolean_and_log_from_verdict [of "PStr [0x592A, 0x77ED]" 50] show ?thesis
    by simp
qed

section \<open>Formatted records\<close>

lemma join_Cons: "ls \<noteq> [] \<Longrightarrow> join sep (l # ls) = l @ sep @ join sep ls"
  by (cases ls) simp_all

lemma join_snoc: "ls \<noteq> [] \<Longrightarrow> join sep (ls @ [l]) = join sep ls @ sep @ l"
  by (induction sep ls rule: join.induct) (simp_all add: join_Cons)

lemma join_length: "sum_list (map length ls) \<le> length (join sep ls)"
  by (induction sep ls rule: join.induct) simp_all

lemma join_simplified:
  "\<not> contains_simplified_chinese sep \<Longrightarrow>
   contains_simplified_chinese (join sep ls) \<longleftrightarrow> list_ex contains_simplified_chinese ls"
  by (induction sep ls rule: join.induct)
     (simp_all add: simplified_append, simp add: contains_simplified_chinese_def)

lemma join_str_in:
  "0xA \<notin> set w \<Longrightarrow> w \<noteq> [] \<Longrightarrow> str_in w (join [0xA] ls) \<longleftrightarrow> list_ex (str_in w) ls"
  by (induction "[0xA::nat]" ls rule: join.induct) (simp_all add: str_in_sep)

lemma str_in_sep_Cons:
  "s \<notin> set w \<Longrightarrow> w \<noteq> [] \<Longrightarrow> str_in w (s # ys) \<longleftrightarrow> str_in w ys"
  using str_in_sep [of s w "[]" ys] by simp

lemma bullet_str_in:
  assumes "0x20 \<notin> set w" "0x2D \<notin> set w" "w \<noteq> []"
  shows "str_in w (BULLET @ item) \<longleftrightarrow> str_in w item"
  using assms by (simp add: BULLET_def str_in_sep_Cons del: str_in.simps)

lemma dropWhile_keeps:
  "\<not> P c \<Longrightarrow> Suc (length bs) \<le> length (dropWhile P (as @ c # bs))"
  by (induction as) auto

lemma rstrip_length:
  "\<not> isspace c \<Longrightarrow> Suc (length xs) \<le> length (rstrip (xs @ c # ys))"
  using dropWhile_keeps [of isspace c "rev xs" "rev ys"]
  by (simp add: rstrip_def)

lemma format_words:
  "list_all (\<lambda>w. w \<noteq> [] \<and> 0xA \<notin> set w \<and> 0x20 \<notin> set w \<and> 0x2D \<notin> set w \<and>
      \<not> str_in w TITLE_CAUSES \<and> \<not> str_in w TITLE_SELF_CARE \<and> \<not> str_in w TITLE_DOCTOR \<and>
      \<not> str_in w TITLE_ENCOURAGEMENT \<and> \<not> str_in w NO_DATA_LINE)
     (DANGER_WORDS @ NONSENSE_WORDS)"
  by (simp add: DANGER_WORDS_def NONSENSE_WORDS_def TITLE_CAUSES_def TITLE_SELF_CARE_def
      TITLE_DOCTOR_def TITLE_ENCOURAGEMENT_def NO_DATA_LINE_def)

lemma format_literals_script:
  "\<not> contains_simplified_chinese TITLE_CAUSES" "\<not> contains_simplified_chinese TITLE_SELF_CARE"
  "\<not> contains_simplified_chinese TITLE_DOCTOR" "\<not> contains_simplified_chinese TITLE_ENCOURAGEMENT"
  "\<not> contains_simplified_chinese NO_DATA_LINE" "\<not> contains_simplified_chinese BULLET"
  "\<not> contains_simplified_chinese [0xA]"
  by (simp_all add: contains_simplified_chinese_def SIMPLIFIED_CHARS_def TITLE_CAUSES_def
      TITLE_SELF_CARE_def TITLE_DOCTOR_def TITLE_ENCOURAGEMENT_def NO_DATA_LINE_def BULLET_def)

text \<open>The lines of a formatted record.\<close>

lemma format_response_lines:
  "format_response e =
     join [0xA]
       ((section_lines (TITLE_CAUSES, get_or (possible_causes e) []) @
         section_lines (TITLE_SELF_CARE, get_or (self_care e) []) @
         section_lines (TITLE_DOCTOR, get_or (when_to_see_doctor e) []) @
         [TITLE_ENCOURAGEMENT]) @
        [BULLET @ get_or (encouragement e) DEFAULT_ENCOURAGEMENT])"
  by (simp add: format_response_def)

lemma section_str_in:
  assumes "0x20 \<notin> set w" "0x2D \<notin> set w" "w \<noteq> []" "\<not> str_in w title" "\<not> str_in w NO_DATA_LINE"
  shows "list_ex (str_in w) (section_lines (title, items)) \<longleftrightarrow> list_ex (str_in w) items"
  using assms by (simp add: section_lines_def list_ex_iff bullet_str_in)

lemma section_simplified:
  assumes "\<not> contains_simplified_chinese title"
  shows "list_ex contains_simplified_chinese (section_lines (title, items)) \<longleftrightarrow>
         list_ex contains_simplified_chinese items"
  using assms
  by (simp add: section_lines_def list_ex_iff simplified_append format_literals_script)

lemma format_word_iff:
  assumes "w \<in> set (DANGER_WORDS @ NONSENSE_WORDS)"
  shows "str_in w (format_response e) \<longleftrightarrow>
     list_ex (str_in w)
       (get_or (possible_causes e) [] @ get_or (self_care e) [] @
        get_or (when_to_see_doctor e) [] @ [get_or (encouragement e) DEFAULT_ENCOURAGEMENT])"
proof -
  from assms format_words
  have w: "w \<noteq> []" "0xA \<notin> set w" "0x20 \<notin> set w" "0x2D \<notin> set w"
    "\<not> str_in w TITLE_CAUSES" "\<not> str_in w TITLE_SELF_CARE" "\<not> str_in w TITLE_DOCTOR"
    "\<not> str_in w TITLE_ENCOURAGEMENT" "\<not> str_in w NO_DATA_LINE"
    unfolding list_all_iff by blast+
  show ?thesis
    unfolding format_response_lines
    using w by (simp add: join_str_in section_str_in bullet_str_in del: str_in.simps)
qed

lemma format_simplified:
  "contains_simplified_chinese (format_response e) \<longleftrightarrow>
     list_ex contains_simplified_chinese
       (get_or (possible_causes e) [] @ get_or (self_care e) [] @
        get_or (when_to_see_doctor e) [] @ [get_or (encouragement e) DEFAULT_ENCOURAGEMENT])"
  unfolding format_response_lines
  by (simp add: join_simplified section_simplified simplified_append format_literals_script)

lemma section_length:
  "length title + 5 \<le> sum_list (map length (section_lines (title, items)))"
  by (cases items) (simp_all add: section_lines_def BULLET_def NO_DATA_LINE_def)

lemma format_front_length:
  "55 \<le> length (join [0xA]
       (section_lines (TITLE_CAUSES, a) @ section_lines (TITLE_SELF_CARE, b) @
        section_lines (TITLE_DOCTOR, c) @ [TITLE_ENCOURAGEMENT]))"
proof -
  have "55 \<le> sum_list (map length
       (section_lines (TITLE_CAUSES, a) @ section_lines (TITLE_SELF_CARE, b) @
        section_lines (TITLE_DOCTOR, c) @ [TITLE_ENCOURAGEMENT]))"
    using section_length [of TITLE_CAUSES a] section_length [of TITLE_SELF_CARE b]
      section_length [of TITLE_DOCTOR c]
    by (simp add: TITLE_CAUSES_def TITLE_SELF_CARE_def TITLE_DOCTOR_def TITLE_ENCOURAGEMENT_def)
  then show ?thesis
    using join_length order_trans by blast
qed

lemma format_strip_length: "50 \<le> length (strip (format_response e))"
proof -
  define front where "front = join [0xA]
       (section_lines (TITLE_CAUSES, get_or (possible_causes e) []) @
        section_lines (TITLE_SELF_CARE, get_or (self_care e) []) @
        section_lines (TITLE_DOCTOR, get_or (when_to_see_doctor e) []) @ [TITLE_ENCOURAGEMENT])"
  define enc where "enc = get_or (encouragement e) DEFAULT_ENCOURAGEMENT"
  have len: "55 \<le> length front"
    unfolding front_def by (rule format_front_length)
  have "format_response e = front @ [0xA] @ BULLET @ enc"
    unfolding format_response_lines front_def enc_def
    by (subst join_snoc) simp_all
  then have split: "format_response e = (front @ [0xA, 0x20, 0x20, 0x20]) @ 0x2D # (0x20 # enc)"
    by (simp add: BULLET_def)
  have "hd (format_response e) = 0x31"
    by (simp add: format_response_lines section_lines_def TITLE_CAUSES_def join_Cons)
  then have "lstrip (format_response e) = format_response e"
    by (simp add: lstrip_def dropWhile_eq_self_iff isspace_def)
  then have "strip (format_response e) = rstrip (format_response e)"
    by (simp add: strip_def)
  moreover have "Suc (length (front @ [0xA, 0x20, 0x20, 0x20])) \<le> length (rstrip (format_response e))"
    unfolding split by (rule rstrip_length) (simp add: isspace_def)
  ultimately show ?thesis
    using len by simp
qed

lemma format_any_word:
  "list_ex (\<lambda>w. str_in w (format_response e)) (DANGER_WORDS @ NONSENSE_WORDS) \<longleftrightarrow>
   list_ex (\<lambda>s. list_ex (\<lambda>w. str_in w s) (DANGER_WORDS @ NONSENSE_WORDS))
     (get_or (possible_causes e) [] @ get_or (self_care e) [] @
      get_or (when_to_see_doctor e) [] @ [get_or (encouragement e) DEFAULT_ENCOURAGEMENT])"
  unfolding list_ex_iff using format_word_iff [of _ e] unfolding list_ex_iff by blast

lemma format_nonempty: "format_response e \<noteq> []"
  using format_strip_length [of e] by (auto simp: strip_def lstrip_def rstrip_def)

lemma format_valid_iff:
  "is_valid_response (PStr (format_response e)) 50 \<longleftrightarrow>
     list_all (\<lambda>s. \<not> list_ex (\<lambda>w. str_in w s) (DANGER_WORDS @ NONSENSE_WORDS) \<and>
                   \<not> contains_simplified_chinese s)
       (get_or (possible_causes e) [] @ get_or (self_care e) [] @
        get_or (when_to_see_doctor e) [] @ [get_or (encouragement e) DEFAULT_ENCOURAGEMENT])"
proof -
  have "is_valid_response (PStr (format_response e)) 50 \<longleftrightarrow>
     \<not> list_ex (\<lambda>w. str_in w (format_response e)) (DANGER_WORDS @ NONSENSE_WORDS) \<and>
     \<not> contains_simplified_chinese (format_response e)"
    using format_strip_length [of e] format_nonempty [of e]
    by (simp add: is_valid_response_def del: list_ex_append)
  also have "\<dots> \<longleftrightarrow>
     \<not> list_ex (\<lambda>s. list_ex (\<lambda>w. str_in w s) (DANGER_WORDS @ NONSENSE_WORDS))
       (get_or (possible_causes e) [] @ get_or (self_care e) [] @
        get_or (when_to_see_doctor e) [] @ [get_or (encouragement e) DEFAULT_ENCOURAGEMENT]) \<and>
     \<not> list_ex contains_simplified_chinese
       (get_or (possible_causes e) [] @ get_or (self_care e) [] @
        get_or (when_to_see_doctor e) [] @ [get_or (encouragement e) DEFAULT_ENCOURAGEMENT])"
    by (simp only: format_any_word format_simplified)
  also have "\<dots> \<longleftrightarrow>
     list_all (\<lambda>s. \<not> list_ex (\<lambda>w. str_in w s) (DANGER_WORDS @ NONSENSE_WORDS) \<and>
                   \<not> contains_simplified_chinese s)
       (get_or (possible_causes e) [] @ get_or (self_care e) [] @
        get_or (when_to_see_doctor e) [] @ [get_or (encouragement e) DEFAULT_ENCOURAGEMENT])"
    unfolding list_ex_iff list_all_iff by blast
  finally show ?thesis .
qed

text \<open>
  Claim C5, as stated: for every advice record, the formatted record passes the validator
  with the default minimum length 50. It fails for a record one of whose strings is or
  contains a danger word: here the only possible cause listed is the one-character word
  for cancer.
\<close>

theorem C5_formatted_record_rejected_counterexample:
  "\<not> is_valid_response (PStr (format_response
      \<lparr>possible_causes = Some [ [0x764C] ], self_care = None, when_to_see_doctor = None,
       encouragement = None\<rparr>)) 50"
  by (simp add: format_valid_iff get_or_def DANGER_WORDS_def)

text \<open>
  Claim C5, amended: for every advice record (lists possibly empty or absent,
  encouragement possibly absent), the formatted record passes the validator with minimum
  length 50 exactly when none of the record's strings (the items of the three lists and
  the encouragement, or its default) contains a danger word, a nonsense word or a
  character of the simplified set. The fixed titles and placeholders never cause a
  rejection, and the stripped length is at least 50 whatever the record holds.
\<close>

theorem C5_formatted_record_valid_iff_strings_clean:
  "50 \<le> length (strip (format_response e)) \<and>
   (is_valid_response (PStr (format_response e)) 50 \<longleftrightarrow>
     list_all (\<lambda>s. \<not> list_ex (\<lambda>w. str_in w s) (DANGER_WORDS @ NONSENSE_WORDS) \<and>
                   \<not> contains_simplified_chinese s)
       (get_or (possible_causes e) [] @ get_or (self_care e) [] @
        get_or (when_to_see_doctor e) [] @ [get_or (encouragement e) DEFAULT_ENCOURAGEMENT]))"
  using format_strip_length [of e] format_valid_iff [of e] by blast

theorem C5_formatted_record_valid_witness:
  "is_valid_response (PStr (format_response
      \<lparr>possible_causes = Some [ [0x5403, 0x592A, 0x5FEB] ], self_care = Some [],
       when_to_see_doctor = None, encouragement = None\<rparr>)) 50"
  using C5_formatted_record_valid_iff_strings_clean
    [of "\<lparr>possible_causes = Some [ [0x5403, 0x592A, 0x5FEB] ], self_care = Some [],
         when_to_see_doctor = None, encouragement = None\<rparr>"]
  by (simp add: get_or_def DANGER_WORDS_def NONSENSE_WORDS_def DEFAULT_ENCOURAGEMENT_def
      contains_simplified_chinese_def SIMPLIFIED_CHARS_def)

section \<open>Loading the knowledge base\<close>

text \<open>
  Where \<open>load_medical_db\<close> fails soft: a missing file, and a file whose reading raises
  an \<open>OSError\<close> (or one of its subclasses) or a \<open>JSONDecodeError\<close>.
\<close>

lemma load_medical_db_missing:
  "load_medical_db Missing = (Inr (PDict []), [Warning MSG_DB_MISSING])"
  by (simp add: load_medical_db_def)

lemma load_medical_db_caught:
  assumes "issubclass c JSONDecodeError \<or> issubclass c OSError"
  shows "load_medical_db (Existing (Inl (Raised c msg))) =
           (Inr (PDict []), [Error (MSG_DB_UNREADABLE @ msg)])"
  using assms by (auto simp: load_medical_db_def)

text \<open>
  Claim C10: \<open>load_medical_db\<close> never raises; on a missing or malformed file it returns an
  empty mapping and logs. The function's docstring says the same ("read safely, return an
  empty dictionary on failure"). The code breaks it on a file whose bytes are not valid
  UTF-8: reading it raises \<open>UnicodeDecodeError\<close>, a \<open>ValueError\<close> that is neither a
  \<open>JSONDecodeError\<close> nor an \<open>OSError\<close>, so the \<open>except\<close> clause lets it through and
  nothing is logged. A file holding valid JSON that is not an object (here an empty
  array) is returned as it is, not as an empty mapping.
\<close>

theorem C10_load_medical_db_raises_on_invalid_utf8:
  "load_medical_db (Existing (Inl (Raised UnicodeDecodeError msg))) =
     (Inl (Raised UnicodeDecodeError msg), []) \<and>
   load_medical_db (Existing (Inr (PList []))) = (Inr (PList []), [])"
  by (simp add: load_medical_db_def issubclass_def)

section \<open>Lookup in the knowledge base\<close>

lemma lookup_loop_find:
  "lookup_loop db u =
     (case find (\<lambda>(key, entry). list_ex (\<lambda>term. str_in term u) (terms_of key)) db of
        None \<Rightarrow> None
      | Some (key, entry) \<Rightarrow> Some (format_response entry))"
  by (induction db u rule: lookup_loop.induct) simp_all

lemma synonyms_nonempty:
  "list_all (\<lambda>(key, syns). list_all (\<lambda>s. s \<noteq> []) syns) SYNONYMS"
  by (simp add: SYNONYMS_def)

lemma terms_of_nonempty:
  assumes "key \<noteq> []" "term \<in> set (terms_of key)"
  shows "term \<noteq> []"
proof (cases "map_of SYNONYMS key")
  case None
  with assms show ?thesis by (simp add: terms_of_def get_or_def)
next
  case (Some syns)
  then have "(key, syns) \<in> set SYNONYMS" by (rule map_of_SomeD)
  with synonyms_nonempty have "\<forall>s \<in> set syns. s \<noteq> []"
    unfolding list_all_iff by blast
  with assms Some show ?thesis by (auto simp: terms_of_def get_or_def)
qed

lemma lookup_loop_blank:
  assumes "[] \<notin> fst ` set db"
  shows "lookup_loop db [] = None"
  using assms
proof (induction db)
  case Nil
  then show ?case by simp
next
  case (Cons a db)
  obtain key entry where a: "a = (key, entry)" by (cases a)
  with Cons.prems have "key \<noteq> []" by auto
  then have "\<not> list_ex (\<lambda>term. str_in term []) (terms_of key)"
    using terms_of_nonempty [of key] by (auto simp: list_ex_iff)
  with Cons a show ?case by simp
qed

lemma lookup_prefix:
  assumes "list_all (\<lambda>(k, e). \<not> list_ex (\<lambda>term. str_in term u) (terms_of k)) pre"
    and "list_ex (\<lambda>term. str_in term u) (terms_of key)"
  shows "lookup_loop (pre @ (key, entry) # rest) u = Some (format_response entry)"
  using assms by (induction pre) auto

lemma strip_inputs: "strip input_both = input_both" "strip input_synonym = input_synonym"
  by (rule strip_id; simp add: input_both_def input_synonym_def isspace_def)+

lemma both_terms:
  "str_in stomach_ache input_both" "str_in diarrhoea input_both"
  by (simp_all add: stomach_ache_def diarrhoea_def input_both_def)

lemma synonym_terms:
  "\<not> str_in diarrhoea input_synonym" "str_in diarrhoea_synonym input_synonym"
  "diarrhoea_synonym \<in> set (terms_of diarrhoea)"
  "\<not> list_ex (\<lambda>term. str_in term input_synonym) (terms_of stomach_ache)"
  by (simp_all add: stomach_ache_def diarrhoea_def diarrhoea_synonym_def input_synonym_def
      terms_of_def SYNONYMS_def get_or_def)

text \<open>
  Claim C6, as stated: lookup returns the formatted record of the first key, in the
  mapping's order, whose key or one of whose synonyms occurs in the stripped user text,
  and returns \<open>None\<close> when the user text is empty, blank or \<open>None\<close> or matches no
  keyword. The part on blank input fails when the knowledge base has the empty string as
  a key: the input is only tested for emptiness before it is stripped, and the empty key
  occurs in every text, also in the empty text a blank input is stripped to.
\<close>

theorem C6_blank_input_empty_key_counterexample:
  "lookup_medical_db [([], entry_dizzy)] (Some [0x20]) = Some (format_response entry_dizzy) \<and>
   strip [0x20] = []"
  by (simp add: lookup_medical_db_def strip_def lstrip_def rstrip_def isspace_def terms_of_def)

text \<open>
  Claim C6, amended: lookup returns \<open>None\<close> for \<open>None\<close> and for the empty string; for
  any other user text it returns the formatted record of the first key, in the mapping's
  order, whose key or one of whose synonyms occurs in the stripped user text, with no
  ranking, and \<open>None\<close> when there is no such key; for a blank user text it returns
  \<open>None\<close> provided no key of the knowledge base is the empty string. The function has
  no raising path on a \<open>str\<close> or \<open>None\<close> and a knowledge base of advice records.
\<close>

theorem C6_lookup_first_match_in_order:
  "lookup_medical_db db None = None \<and>
   lookup_medical_db db (Some []) = None \<and>
   (s \<noteq> [] \<longrightarrow>
      lookup_medical_db db (Some s) =
        (case find (\<lambda>(key, entry). str_in key (strip s) \<or>
                      list_ex (\<lambda>syn. str_in syn (strip s)) (get_or (map_of SYNONYMS key) [])) db of
           None \<Rightarrow> None
         | Some (key, entry) \<Rightarrow> Some (format_response entry))) \<and>
   (strip s = [] \<and> [] \<notin> fst ` set db \<longrightarrow> lookup_medical_db db (Some s) = None)"
proof (intro conjI impI)
  show "lookup_medical_db db None = None" "lookup_medical_db db (Some []) = None"
    by (simp_all add: lookup_medical_db_def)
  show "lookup_medical_db db (Some s) =
        (case find (\<lambda>(key, entry). str_in key (strip s) \<or>
                      list_ex (\<lambda>syn. str_in syn (strip s)) (get_or (map_of SYNONYMS key) [])) db of
           None \<Rightarrow> None
         | Some (key, entry) \<Rightarrow> Some (format_response entry))" if "s \<noteq> []"
    using that by (simp add: lookup_medical_db_def lookup_loop_find terms_of_def)
  show "lookup_medical_db db (Some s) = None" if "strip s = [] \<and> [] \<notin> fst ` set db"
    using that lookup_loop_blank [of db] by (simp add: lookup_medical_db_def)
qed

theorem C6_lookup_witness:
  "lookup_medical_db example_db (Some input_synonym) = Some (format_response entry_diarrhoea) \<and>
   lookup_medical_db example_db (Some [0x20, 0x3000]) = None"
proof -
  have a: "input_synonym \<noteq> []" by (simp add: input_synonym_def)
  have b: "strip [0x20, 0x3000] = [] \<and> [] \<notin> fst ` set example_db"
    by (simp add: strip_def lstrip_def rstrip_def isspace_def example_db_def stomach_ache_def
        diarrhoea_def dizziness_def)
  have c: "find (\<lambda>(key, entry). str_in key (strip input_synonym) \<or>
                      list_ex (\<lambda>syn. str_in syn (strip input_synonym))
                        (get_or (map_of SYNONYMS key) [])) example_db
           = Some (diarrhoea, entry_diarrhoea)"
    unfolding strip_inputs
    by (simp add: example_db_def stomach_ache_def diarrhoea_def input_synonym_def
        SYNONYMS_def get_or_def)
  from C6_lookup_first_match_in_order [of example_db input_synonym] a c
  have "lookup_medical_db example_db (Some input_synonym) = Some (format_response entry_diarrhoea)"
    by simp
  moreover from C6_lookup_first_match_in_order [of example_db "[0x20, 0x3000]"] b
  have "lookup_medical_db example_db (Some [0x20, 0x3000]) = None"
    by blast
  ultimately show ?thesis by simp
qed

text \<open>
  Claim C7: looking up "my stomach aches and I have diarrhoea" gives the record of the
  keyword "stomach ache", though the keyword "diarrhoea" occurs in the text too; looking
  up "the diarrhoea is severe" gives the record of "diarrhoea", through its synonym. The
  knowledge-base file is not among the sources, so the knowledge base is a parameter:
  the first holds for every knowledge base in which no key before "stomach ache" has a
  term occurring in the text, the second for every knowledge base in which no key before
  "diarrhoea" has a term occurring in the text, which "stomach ache" and its synonyms do
  not.
\<close>

theorem C7_lookup_examples:
  "(list_all (\<lambda>(k, e). \<not> list_ex (\<lambda>term. str_in term input_both) (terms_of k)) pre \<longrightarrow>
      lookup_medical_db (pre @ (stomach_ache, e1) # rest) (Some input_both)
        = Some (format_response e1)) \<and>
   str_in diarrhoea input_both \<and>
   (list_all (\<lambda>(k, e). \<not> list_ex (\<lambda>term. str_in term input_synonym) (terms_of k)) pre' \<longrightarrow>
      lookup_medical_db (pre' @ (diarrhoea, e2) # rest') (Some input_synonym)
        = Some (format_response e2)) \<and>
   \<not> str_in diarrhoea input_synonym \<and> str_in diarrhoea_synonym input_synonym \<and>
   diarrhoea_synonym \<in> set (terms_of diarrhoea) \<and>
   \<not> list_ex (\<lambda>term. str_in term input_synonym) (terms_of stomach_ache)"
proof (intro conjI impI)
  have ne: "input_both \<noteq> []" "input_synonym \<noteq> []"
    by (simp_all add: input_both_def input_synonym_def)
  show "lookup_medical_db (pre @ (stomach_ache, e1) # rest) (Some input_both)
        = Some (format_response e1)"
    if "list_all (\<lambda>(k, e). \<not> list_ex (\<lambda>term. str_in term input_both) (terms_of k)) pre"
    using that ne both_terms(1)
    by (simp add: lookup_medical_db_def strip_inputs lookup_prefix terms_of_def)
  have "list_ex (\<lambda>term. str_in term input_synonym) (terms_of diarrhoea)"
    using synonym_terms(2,3) by (auto simp: list_ex_iff)
  then show "lookup_medical_db (pre' @ (diarrhoea, e2) # rest') (Some input_synonym)
        = Some (format_response e2)"
    if "list_all (\<lambda>(k, e). \<not> list_ex (\<lambda>term. str_in term input_synonym) (terms_of k)) pre'"
    using that ne
    by (simp add: lookup_medical_db_def strip_inputs lookup_prefix)
qed (simp_all add: both_terms synonym_terms)

theorem C7_lookup_examples_witness:
  "lookup_medical_db example_db (Some input_both) = Some (format_response entry_stomach) \<and>
   lookup_medical_db example_db (Some input_synonym) = Some (format_response entry_diarrhoea)"
proof -
  have "list_all (\<lambda>(k, e). \<not> list_ex (\<lambda>term. str_in term input_synonym) (terms_of k))
          [(stomach_ache, entry_stomach)]"
    using synonym_terms(4) by simp
  with C7_lookup_examples [of "[]" entry_stomach "[(diarrhoea, entry_diarrhoea), (dizziness, entry_dizzy)]"
      "[(stomach_ache, entry_stomach)]" entry_diarrhoea "[(dizziness, entry_dizzy)]"]
  show ?thesis
    by (simp add: example_db_def)
qed

section \<open>The generator wrappers\<close>

declare query_ollama_cli.simps [simp del] query_ollama_web.simps [simp del]

lemma post_request_sent:
  "post_request gen w url payload = (r, w') \<Longrightarrow> sent w' = sent w @ [(url, payload)]"
  by (auto simp: post_request_def Let_def split: http_result.splits)

lemma strip_length_le: "length (strip t) \<le> length t"
proof -
  have "length (dropWhile isspace (rev (dropWhile isspace t))) \<le> length (rev (dropWhile isspace t))"
    by (rule length_dropWhile_le)
  also have "\<dots> \<le> length t"
    by (simp add: length_dropWhile_le)
  finally show ?thesis
    by (simp add: strip_def lstrip_def rstrip_def)
qed

lemma error_strings_invalid:
  "\<not> is_valid_response (PStr APOLOGY) 50" "\<not> is_valid_response (PStr SYSTEM_ERROR) 50"
proof -
  have "length (strip APOLOGY) \<le> 22" "length (strip SYSTEM_ERROR) \<le> 14"
    using strip_length_le [of APOLOGY] strip_length_le [of SYSTEM_ERROR]
    by (simp_all add: APOLOGY_def SYSTEM_ERROR_def)
  then show "\<not> is_valid_response (PStr APOLOGY) 50" "\<not> is_valid_response (PStr SYSTEM_ERROR) 50"
    by (simp_all add: is_valid_response_iff)
qed

text \<open>The wrapper with \<open>use_fallback=True\<close>: one request, no recursion.\<close>

lemma query_cli_retry:
  assumes "query_ollama_cli cc gen w prompt True = (res, w')"
  shows "sent w' = sent w @ [(OLLAMA_URL_CLI, cli_payload prompt)]"
    and "res = Inl no_attribute \<or> res = Inr APOLOGY \<or> res = Inr SYSTEM_ERROR \<or>
         (\<exists>a. is_valid_response (PStr a) 50 \<and> res = Inr (to_traditional cc a))"
proof -
  obtain response w1 where p: "post_request gen w OLLAMA_URL_CLI (cli_payload prompt) = (response, w1)"
    by (cases "post_request gen w OLLAMA_URL_CLI (cli_payload prompt)")
  from assms p have "w' = w1"
    by (simp add: query_ollama_cli.simps split: if_splits sum.splits)
  with post_request_sent [OF p] show "sent w' = sent w @ [(OLLAMA_URL_CLI, cli_payload prompt)]"
    by simp
  have "cli_answer response = Inl e \<Longrightarrow> e = no_attribute" for e
    by (auto simp: cli_answer_def split: sum.splits elim: py_get.elims py_strip.elims)
  with assms p show "res = Inl no_attribute \<or> res = Inr APOLOGY \<or> res = Inr SYSTEM_ERROR \<or>
         (\<exists>a. is_valid_response (PStr a) 50 \<and> res = Inr (to_traditional cc a))"
    by (auto simp: query_ollama_cli.simps split: if_splits sum.splits)
qed

lemma query_cli_first:
  assumes "query_ollama_cli cc gen w prompt False = (res, w')"
  shows "sent w' = sent w @ [(OLLAMA_URL_CLI, cli_payload prompt)] \<or>
         sent w' = sent w @ [(OLLAMA_URL_CLI, cli_payload prompt),
                             (OLLAMA_URL_CLI, cli_payload (prompt @ [0xA, 0xA] @ FALLBACK_HINT))]"
    and "res = Inl no_attribute \<or> res = Inr APOLOGY \<or> res = Inr SYSTEM_ERROR \<or>
         (\<exists>a. is_valid_response (PStr a) 50 \<and> res = Inr (to_traditional cc a))"
proof -
  obtain response w1 where p: "post_request gen w OLLAMA_URL_CLI (cli_payload prompt) = (response, w1)"
    by (cases "post_request gen w OLLAMA_URL_CLI (cli_payload prompt)")
  note s1 = post_request_sent [OF p]
  have e: "cli_answer response = Inl e \<Longrightarrow> e = no_attribute" for e
    by (auto simp: cli_answer_def split: sum.splits elim: py_get.elims py_strip.elims)
  have c: "(w' = w1 \<and> (res = Inl no_attribute \<or> res = Inr SYSTEM_ERROR \<or>
         (\<exists>a. is_valid_response (PStr a) 50 \<and> res = Inr (to_traditional cc a)))) \<or>
      query_ollama_cli cc gen w1 (prompt @ [0xA, 0xA] @ FALLBACK_HINT) True = (res, w')"
    using assms p e
    by (subst (asm) query_ollama_cli.simps) (auto split: if_splits sum.splits)
  then show "sent w' = sent w @ [(OLLAMA_URL_CLI, cli_payload prompt)] \<or>
         sent w' = sent w @ [(OLLAMA_URL_CLI, cli_payload prompt),
                             (OLLAMA_URL_CLI, cli_payload (prompt @ [0xA, 0xA] @ FALLBACK_HINT))]"
    using s1 by (auto dest: query_cli_retry(1))
  from c show "res = Inl no_attribute \<or> res = Inr APOLOGY \<or> res = Inr SYSTEM_ERROR \<or>
         (\<exists>a. is_valid_response (PStr a) 50 \<and> res = Inr (to_traditional cc a))"
    by (auto dest: query_cli_retry(2))
qed

text \<open>The same for the web wrapper.\<close>

lemma query_web_retry:
  assumes "query_ollama_web cc gen w user_input True = (res, w')"
  shows "sent w' = sent w @ [(OLLAMA_URL_WEB, web_payload (build_web_prompt user_input))]"
    and "res = Inl no_attribute \<or> res = Inr APOLOGY \<or> res = Inr SYSTEM_ERROR \<or>
         (\<exists>a. is_valid_response (PStr a) 50 \<and> res = Inr (to_traditional cc a))"
proof -
  obtain response w1 where p: "post_request gen w OLLAMA_URL_WEB (web_payload (build_web_prompt user_input)) = (response, w1)"
    by (cases "post_request gen w OLLAMA_URL_WEB (web_payload (build_web_prompt user_input))")
  from assms p have "w' = w1"
    by (simp add: query_ollama_web.simps split: if_splits sum.splits)
  with post_request_sent [OF p] show "sent w' = sent w @ [(OLLAMA_URL_WEB, web_payload (build_web_prompt user_input))]"
    by simp
  have "web_answer response = Inl e \<Longrightarrow> e = no_attribute" for e
    by (auto simp: web_answer_def split: sum.splits elim: py_get.elims py_strip.elims)
  with assms p show "res = Inl no_attribute \<or> res = Inr APOLOGY \<or> res = Inr SYSTEM_ERROR \<or>
         (\<exists>a. is_valid_response (PStr a) 50 \<and> res = Inr (to_traditional cc a))"
    by (auto simp: query_ollama_web.simps split: if_splits sum.splits)
qed

lemma query_web_first:
  assumes "query_ollama_web cc gen w user_input False = (res, w')"
  shows "sent w' = sent w @ [(OLLAMA_URL_WEB, web_payload (build_web_prompt user_input))] \<or>
         sent w' = sent w @ [(OLLAMA_URL_WEB, web_payload (build_web_prompt user_input)),
                             (OLLAMA_URL_WEB, web_payload (build_web_prompt (user_input @ FULL_STOP @ FALLBACK_HINT)))]"
    and "res = Inl no_attribute \<or> res = Inr APOLOGY \<or> res = Inr SYSTEM_ERROR \<or>
         (\<exists>a. is_valid_response (PStr a) 50 \<and> res = Inr (to_traditional cc a))"
proof -
  obtain response w1 where p: "post_request gen w OLLAMA_URL_WEB (web_payload (build_web_prompt user_input)) = (response, w1)"
    by (cases "post_request gen w OLLAMA_URL_WEB (web_payload (build_web_prompt user_input))")
  note s1 = post_request_sent [OF p]
  have e: "web_answer response = Inl e \<Longrightarrow> e = no_attribute" for e
    by (auto simp: web_answer_def split: sum.splits elim: py_get.elims py_strip.elims)
  have c: "(w' = w1 \<and> (res = Inl no_attribute \<or> res = Inr SYSTEM_ERROR \<or>
         (\<exists>a. is_valid_response (PStr a) 50 \<and> res = Inr (to_traditional cc a)))) \<or>
      query_ollama_web cc gen w1 (user_input @ FULL_STOP @ FALLBACK_HINT) True = (res, w')"
    using assms p e
    by (subst (asm) query_ollama_web.simps) (auto split: if_splits sum.splits)
  then show "sent w' = sent w @ [(OLLAMA_URL_WEB, web_payload (build_web_prompt user_input))] \<or>
         sent w' = sent w @ [(OLLAMA_URL_WEB, web_payload (build_web_prompt user_input)),
                             (OLLAMA_URL_WEB, web_payload (build_web_prompt (user_input @ FULL_STOP @ FALLBACK_HINT)))]"
    using s1 by (auto dest: query_web_retry(1))
  from c show "res = Inl no_attribute \<or> res = Inr APOLOGY \<or> res = Inr SYSTEM_ERROR \<or>
         (\<exists>a. is_valid_response (PStr a) 50 \<and> res = Inr (to_traditional cc a))"
    by (auto dest: query_web_retry(2))
qed

section \<open>One request through a front end\<close>

text \<open>
  The candidate reply of the generator path: valid or the fallback text, after one to four
  requests to the generator.
\<close>

lemma cli_candidate_result:
  assumes "cli_candidate cc gen w q = (Inr c, w')"
  shows "is_valid_response (PStr c) 50 \<or> c = fallback_response q"
  using assms
  by (auto simp: cli_candidate_def Let_def split: prod.splits sum.splits if_splits)

lemma cli_candidate_raises:
  assumes "cli_candidate cc gen w q = (Inl e, w')"
  shows "e = no_attribute"
  using assms
  by (auto simp: cli_candidate_def Let_def split: prod.splits sum.splits if_splits
      dest: query_cli_first(2))

lemma cli_candidate_sent:
  assumes "cli_candidate cc gen w q = (res, w')"
  shows "\<exists>reqs. sent w' = sent w @ reqs \<and> 1 \<le> length reqs \<and> length reqs \<le> 4"
proof -
  obtain r1 w1 where q1: "query_ollama_cli cc gen w (build_cli_prompt q) False = (r1, w1)"
    by (cases "query_ollama_cli cc gen w (build_cli_prompt q) False")
  from query_cli_first(1) [OF q1]
  obtain reqs1 where s1: "sent w1 = sent w @ reqs1" "1 \<le> length reqs1" "length reqs1 \<le> 2"
    by auto
  show ?thesis
  proof (cases "\<exists>reply. r1 = Inr reply \<and> \<not> is_valid_response (PStr reply) 50")
    case False
    with assms q1 have "w' = w1"
      by (auto simp: cli_candidate_def Let_def split: prod.splits sum.splits if_splits)
    with s1 show ?thesis by auto
  next
    case True
    then obtain reply where r: "r1 = Inr reply" "\<not> is_valid_response (PStr reply) 50"
      by blast
    obtain r2 w2 where q2: "query_ollama_cli cc gen w1
        (build_cli_prompt q @ [0xA] @ FALLBACK_HINT) False = (r2, w2)"
      by (cases "query_ollama_cli cc gen w1 (build_cli_prompt q @ [0xA] @ FALLBACK_HINT) False")
    from query_cli_first(1) [OF q2]
    obtain reqs2 where s2: "sent w2 = sent w1 @ reqs2" "1 \<le> length reqs2" "length reqs2 \<le> 2"
      by auto
    from assms q1 q2 r have "w' = w2"
      by (auto simp: cli_candidate_def Let_def split: prod.splits sum.splits if_splits)
    with s1 s2 have "sent w' = sent w @ (reqs1 @ reqs2)" "1 \<le> length (reqs1 @ reqs2)"
      "length (reqs1 @ reqs2) \<le> 4"
      by simp_all
    then show ?thesis by blast
  qed
qed

text \<open>When both calls of the wrapper end in a reply that is not valid.\<close>

lemma cli_candidate_fallback:
  assumes "query_ollama_cli cc gen w (build_cli_prompt q) False = (Inr r1, w1)"
    and "\<not> is_valid_response (PStr r1) 50"
    and "query_ollama_cli cc gen w1 (build_cli_prompt q @ [0xA] @ FALLBACK_HINT) False = (Inr r2, w2)"
    and "\<not> is_valid_response (PStr r2) 50"
  shows "cli_candidate cc gen w q = (Inr (fallback_response q), w2)"
  using assms by (simp add: cli_candidate_def)

lemma web_candidate_result:
  assumes "web_candidate cc gen w q = (Inr c, w')"
  shows "is_valid_response (PStr c) 50 \<or> c = fallback_response q"
  using assms
  by (auto simp: web_candidate_def Let_def split: prod.splits sum.splits if_splits)

lemma web_candidate_raises:
  assumes "web_candidate cc gen w q = (Inl e, w')"
  shows "e = no_attribute"
  using assms
  by (auto simp: web_candidate_def Let_def split: prod.splits sum.splits if_splits
      dest: query_web_first(2))

lemma web_candidate_sent:
  assumes "web_candidate cc gen w q = (res, w')"
  shows "\<exists>reqs. sent w' = sent w @ reqs \<and> 1 \<le> length reqs \<and> length reqs \<le> 4"
proof -
  obtain r1 w1 where q1: "query_ollama_web cc gen w q False = (r1, w1)"
    by (cases "query_ollama_web cc gen w q False")
  from query_web_first(1) [OF q1]
  obtain reqs1 where s1: "sent w1 = sent w @ reqs1" "1 \<le> length reqs1" "length reqs1 \<le> 2"
    by auto
  show ?thesis
  proof (cases "\<exists>reply. r1 = Inr reply \<and> \<not> is_valid_response (PStr reply) 50")
    case False
    with assms q1 have "w' = w1"
      by (auto simp: web_candidate_def Let_def split: prod.splits sum.splits if_splits)
    with s1 show ?thesis by auto
  next
    case True
    then obtain reply where r: "r1 = Inr reply" "\<not> is_valid_response (PStr reply) 50"
      by blast
    obtain r2 w2 where q2: "query_ollama_web cc gen w1 (q @ [0xA] @ FALLBACK_HINT) False = (r2, w2)"
      by (cases "query_ollama_web cc gen w1 (q @ [0xA] @ FALLBACK_HINT) False")
    from query_web_first(1) [OF q2]
    obtain reqs2 where s2: "sent w2 = sent w1 @ reqs2" "1 \<le> length reqs2" "length reqs2 \<le> 2"
      by auto
    from assms q1 q2 r have "w' = w2"
      by (auto simp: web_candidate_def Let_def split: prod.splits sum.splits if_splits)
    with s1 s2 have "sent w' = sent w @ (reqs1 @ reqs2)" "1 \<le> length (reqs1 @ reqs2)"
      "length (reqs1 @ reqs2) \<le> 4"
      by simp_all
    then show ?thesis by blast
  qed
qed

lemma web_candidate_fallback:
  assumes "query_ollama_web cc gen w q False = (Inr r1, w1)"
    and "\<not> is_valid_response (PStr r1) 50"
    and "query_ollama_web cc gen w1 (q @ [0xA] @ FALLBACK_HINT) False = (Inr r2, w2)"
    and "\<not> is_valid_response (PStr r2) 50"
  shows "web_candidate cc gen w q = (Inr (fallback_response q), w2)"
  using assms by (simp add: web_candidate_def)

lemma query_cli_sent:
  assumes "query_ollama_cli cc gen w p b = (res, w1)"
  shows "\<exists>reqs. sent w1 = sent w @ reqs \<and> 1 \<le> length reqs \<and> length reqs \<le> 2"
proof (cases b)
  case True
  with assms query_cli_retry(1) [of cc gen w p res w1] show ?thesis by simp
next
  case False
  with assms query_cli_first(1) [of cc gen w p res w1] show ?thesis by auto
qed

lemma query_web_sent:
  assumes "query_ollama_web cc gen w u b = (res, w1)"
  shows "\<exists>reqs. sent w1 = sent w @ reqs \<and> 1 \<le> length reqs \<and> length reqs \<le> 2"
proof (cases b)
  case True
  with assms query_web_retry(1) [of cc gen w u res w1] show ?thesis by simp
next
  case False
  with assms query_web_first(1) [of cc gen w u res w1] show ?thesis by auto
qed

text \<open>How one iteration of the command-line loop ends.\<close>

lemma run_cli_iteration_cases:
  assumes "run_cli_iteration cc db gen w line = (out, w')"
  shows "(w' = w \<and> (out = Inr EmptyNotice \<or> out = Inr Stopped \<or>
            (\<exists>r. out = Inr (DbResult r) \<and> lookup_medical_db db (Some (strip line)) = Some r))) \<or>
         (\<exists>e. out = Inl e \<and> cli_candidate cc gen w (strip line) = (Inl e, w')) \<or>
         (\<exists>c. out = Inr (ModelReply (to_traditional cc c)) \<and>
              cli_candidate cc gen w (strip line) = (Inr c, w'))"
  using assms
  by (auto simp: run_cli_iteration_def Let_def split: if_splits option.splits prod.splits sum.splits)

lemma run_web_cases:
  assumes "run_web cc db gen w user_input = (out, w')"
  shows "(w' = w \<and> (out = Inr EmptyNotice \<or>
            (\<exists>r. out = Inr (DbResult r) \<and> lookup_medical_db db (Some user_input) = Some r))) \<or>
         (\<exists>e. out = Inl e \<and> web_candidate cc gen w user_input = (Inl e, w')) \<or>
         (\<exists>c. out = Inr (ModelReply (to_traditional cc c)) \<and>
              web_candidate cc gen w user_input = (Inr c, w'))"
  using assms
  by (auto simp: run_web_def Let_def split: if_splits option.splits prod.splits sum.splits)

lemma run_cli_iteration_sent:
  assumes "run_cli_iteration cc db gen w line = (out, w')"
  shows "\<exists>reqs. sent w' = sent w @ reqs \<and> length reqs \<le> 4"
  using run_cli_iteration_cases [OF assms]
  by (auto dest!: cli_candidate_sent)

lemma run_web_sent:
  assumes "run_web cc db gen w user_input = (out, w')"
  shows "\<exists>reqs. sent w' = sent w @ reqs \<and> length reqs \<le> 4"
  using run_web_cases [OF assms]
  by (auto dest!: web_candidate_sent)

text \<open>The requests one call of a wrapper sends, and when it sends the second.\<close>

lemma query_cli_requests:
  assumes "query_ollama_cli cc gen w p b = (res, w1)"
  shows "sent w1 = sent w @
     (if \<not> b \<and> truthy (fst (post_request gen w OLLAMA_URL_CLI (cli_payload p))) \<and>
         (\<exists>a. cli_answer (fst (post_request gen w OLLAMA_URL_CLI (cli_payload p))) = Inr a \<and>
              \<not> is_valid_response (PStr a) 50)
      then [(OLLAMA_URL_CLI, cli_payload p),
            (OLLAMA_URL_CLI, cli_payload (p @ [0xA, 0xA] @ FALLBACK_HINT))]
      else [(OLLAMA_URL_CLI, cli_payload p)])"
proof -
  obtain response w0 where p: "post_request gen w OLLAMA_URL_CLI (cli_payload p) = (response, w0)"
    by (cases "post_request gen w OLLAMA_URL_CLI (cli_payload p)")
  note s0 = post_request_sent [OF p]
  show ?thesis
  proof (cases "\<not> b \<and> truthy response \<and>
      (\<exists>a. cli_answer response = Inr a \<and> \<not> is_valid_response (PStr a) 50)")
    case True
    with assms p
    have "query_ollama_cli cc gen w0 (p @ [0xA, 0xA] @ FALLBACK_HINT) True = (res, w1)"
      by (subst (asm) query_ollama_cli.simps) auto
    from query_cli_retry(1) [OF this] s0 True p show ?thesis
      by simp
  next
    case False
    with assms p have "w1 = w0"
      by (subst (asm) query_ollama_cli.simps) (auto split: if_splits sum.splits)
    with s0 False p show ?thesis
      by auto
  qed
qed

lemma query_web_requests:
  assumes "query_ollama_web cc gen w u b = (res, w1)"
  shows "sent w1 = sent w @
     (if \<not> b \<and> truthy (fst (post_request gen w OLLAMA_URL_WEB (web_payload (build_web_prompt u)))) \<and>
         (\<exists>a. web_answer (fst (post_request gen w OLLAMA_URL_WEB (web_payload (build_web_prompt u))))
                = Inr a \<and> \<not> is_valid_response (PStr a) 50)
      then [(OLLAMA_URL_WEB, web_payload (build_web_prompt u)),
            (OLLAMA_URL_WEB, web_payload (build_web_prompt (u @ FULL_STOP @ FALLBACK_HINT)))]
      else [(OLLAMA_URL_WEB, web_payload (build_web_prompt u))])"
proof -
  obtain response w0 where p:
    "post_request gen w OLLAMA_URL_WEB (web_payload (build_web_prompt u)) = (response, w0)"
    by (cases "post_request gen w OLLAMA_URL_WEB (web_payload (build_web_prompt u))")
  note s0 = post_request_sent [OF p]
  show ?thesis
  proof (cases "\<not> b \<and> truthy response \<and>
      (\<exists>a. web_answer response = Inr a \<and> \<not> is_valid_response (PStr a) 50)")
    case True
    with assms p
    have "query_ollama_web cc gen w0 (u @ FULL_STOP @ FALLBACK_HINT) True = (res, w1)"
      by (subst (asm) query_ollama_web.simps) auto
    from query_web_retry(1) [OF this] s0 True p show ?thesis
      by simp
  next
    case False
    with assms p have "w1 = w0"
      by (subst (asm) query_ollama_web.simps) (auto split: if_splits sum.splits)
    with s0 False p show ?thesis
      by auto
  qed
qed

text \<open>The second call of the wrapper by a front end, and when it is made.\<close>

lemma cli_candidate_second_call:
  assumes "cli_candidate cc gen w q = (res, w')"
    and "query_ollama_cli cc gen w (build_cli_prompt q) False = (r1, w1)"
  shows "if \<exists>reply. r1 = Inr reply \<and> \<not> is_valid_response (PStr reply) 50
         then \<exists>r2. query_ollama_cli cc gen w1 (build_cli_prompt q @ [0xA] @ FALLBACK_HINT) False
                = (r2, w')
         else w' = w1"
  using assms
  by (cases "query_ollama_cli cc gen w1 (build_cli_prompt q @ [0xA] @ FALLBACK_HINT) False")
    (auto simp: cli_candidate_def Let_def split: sum.splits if_splits)

lemma web_candidate_second_call:
  assumes "web_candidate cc gen w q = (res, w')"
    and "query_ollama_web cc gen w q False = (r1, w1)"
  shows "if \<exists>reply. r1 = Inr reply \<and> \<not> is_valid_response (PStr reply) 50
         then \<exists>r2. query_ollama_web cc gen w1 (q @ [0xA] @ FALLBACK_HINT) False = (r2, w')
         else w' = w1"
  using assms
  by (cases "query_ollama_web cc gen w1 (q @ [0xA] @ FALLBACK_HINT) False")
    (auto simp: web_candidate_def Let_def split: sum.splits if_splits)

text \<open>The six sequences of requests one user request can send.\<close>

lemma cli_candidate_shapes:
  assumes "cli_candidate cc gen w q = (res, w')"
  shows "\<exists>reqs. sent w' = sent w @ map (\<lambda>p. (OLLAMA_URL_CLI, cli_payload p)) reqs \<and>
     reqs \<in> set
       [ [build_cli_prompt q],
        [build_cli_prompt q, build_cli_prompt q @ [0xA, 0xA] @ FALLBACK_HINT],
        [build_cli_prompt q, build_cli_prompt q @ [0xA] @ FALLBACK_HINT],
        [build_cli_prompt q, build_cli_prompt q @ [0xA] @ FALLBACK_HINT,
         (build_cli_prompt q @ [0xA] @ FALLBACK_HINT) @ [0xA, 0xA] @ FALLBACK_HINT],
        [build_cli_prompt q, build_cli_prompt q @ [0xA, 0xA] @ FALLBACK_HINT,
         build_cli_prompt q @ [0xA] @ FALLBACK_HINT],
        [build_cli_prompt q, build_cli_prompt q @ [0xA, 0xA] @ FALLBACK_HINT,
         build_cli_prompt q @ [0xA] @ FALLBACK_HINT,
         (build_cli_prompt q @ [0xA] @ FALLBACK_HINT) @ [0xA, 0xA] @ FALLBACK_HINT] ]"
proof -
  obtain r1 w1 where q1: "query_ollama_cli cc gen w (build_cli_prompt q) False = (r1, w1)"
    by (cases "query_ollama_cli cc gen w (build_cli_prompt q) False")
  note f = query_cli_first(1) [OF q1]
  show ?thesis
  proof (cases "\<exists>reply. r1 = Inr reply \<and> \<not> is_valid_response (PStr reply) 50")
    case False
    with cli_candidate_second_call [OF assms q1] have "w' = w1" by simp
    with f show ?thesis
      by (elim disjE) (rule exI [of _ "[build_cli_prompt q]"], simp,
        rule exI [of _ "[build_cli_prompt q, build_cli_prompt q @ [0xA, 0xA] @ FALLBACK_HINT]"], simp)
  next
    case True
    with cli_candidate_second_call [OF assms q1]
    obtain r2 where q2:
      "query_ollama_cli cc gen w1 (build_cli_prompt q @ [0xA] @ FALLBACK_HINT) False = (r2, w')"
      by auto
    note g = query_cli_first(1) [OF q2]
    from f g show ?thesis
      by (elim disjE)
        (rule exI [of _ "[build_cli_prompt q, build_cli_prompt q @ [0xA] @ FALLBACK_HINT]"], simp,
         rule exI [of _ "[build_cli_prompt q, build_cli_prompt q @ [0xA] @ FALLBACK_HINT,
           (build_cli_prompt q @ [0xA] @ FALLBACK_HINT) @ [0xA, 0xA] @ FALLBACK_HINT]"], simp,
         rule exI [of _ "[build_cli_prompt q, build_cli_prompt q @ [0xA, 0xA] @ FALLBACK_HINT,
           build_cli_prompt q @ [0xA] @ FALLBACK_HINT]"], simp,
         rule exI [of _ "[build_cli_prompt q, build_cli_prompt q @ [0xA, 0xA] @ FALLBACK_HINT,
           build_cli_prompt q @ [0xA] @ FALLBACK_HINT,
           (build_cli_prompt q @ [0xA] @ FALLBACK_HINT) @ [0xA, 0xA] @ FALLBACK_HINT]"], simp)
  qed
qed

lemma web_candidate_shapes:
  assumes "web_candidate cc gen w q = (res, w')"
  shows "\<exists>reqs. sent w' = sent w @ map (\<lambda>i. (OLLAMA_URL_WEB, web_payload (build_web_prompt i))) reqs \<and>
     reqs \<in> set
       [ [q],
        [q, q @ FULL_STOP @ FALLBACK_HINT],
        [q, q @ [0xA] @ FALLBACK_HINT],
        [q, q @ [0xA] @ FALLBACK_HINT,
         (q @ [0xA] @ FALLBACK_HINT) @ FULL_STOP @ FALLBACK_HINT],
        [q, q @ FULL_STOP @ FALLBACK_HINT,
         q @ [0xA] @ FALLBACK_HINT],
        [q, q @ FULL_STOP @ FALLBACK_HINT,
         q @ [0xA] @ FALLBACK_HINT,
         (q @ [0xA] @ FALLBACK_HINT) @ FULL_STOP @ FALLBACK_HINT] ]"
proof -
  obtain r1 w1 where q1: "query_ollama_web cc gen w q False = (r1, w1)"
    by (cases "query_ollama_web cc gen w q False")
  note f = query_web_first(1) [OF q1]
  show ?thesis
  proof (cases "\<exists>reply. r1 = Inr reply \<and> \<not> is_valid_response (PStr reply) 50")
    case False
    with web_candidate_second_call [OF assms q1] have "w' = w1" by simp
    with f show ?thesis
      by (elim disjE) (rule exI [of _ "[q]"], simp,
        rule exI [of _ "[q, q @ FULL_STOP @ FALLBACK_HINT]"], simp)
  next
    case True
    with web_candidate_second_call [OF assms q1]
    obtain r2 where q2:
      "query_ollama_web cc gen w1 (q @ [0xA] @ FALLBACK_HINT) False = (r2, w')"
      by auto
    note g = query_web_first(1) [OF q2]
    from f g show ?thesis
      by (elim disjE)
        (rule exI [of _ "[q, q @ [0xA] @ FALLBACK_HINT]"], simp,
         rule exI [of _ "[q, q @ [0xA] @ FALLBACK_HINT,
           (q @ [0xA] @ FALLBACK_HINT) @ FULL_STOP @ FALLBACK_HINT]"], simp,
         rule exI [of _ "[q, q @ FULL_STOP @ FALLBACK_HINT,
           q @ [0xA] @ FALLBACK_HINT]"], simp,
         rule exI [of _ "[q, q @ FULL_STOP @ FALLBACK_HINT,
           q @ [0xA] @ FALLBACK_HINT,
           (q @ [0xA] @ FALLBACK_HINT) @ FULL_STOP @ FALLBACK_HINT]"], simp)
  qed
qed

section \<open>How often the generator is called\<close>

text \<open>A generator whose answers are all rejected, and one that cannot be reached.\<close>

lemma strip_short: "strip [0x592A, 0x77ED] = [0x592A, 0x77ED]"
  by (simp add: strip_def lstrip_def rstrip_def isspace_def)

lemma gen_rejected_answer:
  "post_request gen_rejected w OLLAMA_URL_CLI payload = (response, w1) \<Longrightarrow>
     truthy response \<and> cli_answer response = Inr [0x592A, 0x77ED]"
  by (auto simp: post_request_def gen_rejected_def cli_answer_def ascii_def get_or_def strip_short)

lemma gen_rejected_retry:
  "query_ollama_cli cc gen_rejected w p True =
     (Inr APOLOGY, w\<lparr>sent := sent w @ [(OLLAMA_URL_CLI, cli_payload p)]\<rparr>)"
  by (subst query_ollama_cli.simps)
    (simp add: post_request_def gen_rejected_def cli_answer_def ascii_def get_or_def strip_short
      too_short_rejected)

lemma gen_rejected_first:
  "query_ollama_cli cc gen_rejected w p False =
     (Inr APOLOGY, w\<lparr>sent := sent w @ [(OLLAMA_URL_CLI, cli_payload p),
        (OLLAMA_URL_CLI, cli_payload (p @ [0xA, 0xA] @ FALLBACK_HINT))]\<rparr>)"
  by (subst query_ollama_cli.simps)
    (simp add: post_request_def gen_rejected_def cli_answer_def ascii_def get_or_def strip_short
      too_short_rejected gen_rejected_retry)

lemma gen_rejected_candidate:
  "cli_candidate cc gen_rejected w q =
     (Inr (fallback_response q),
      w\<lparr>sent := sent w @
        [(OLLAMA_URL_CLI, cli_payload (build_cli_prompt q)),
         (OLLAMA_URL_CLI, cli_payload (build_cli_prompt q @ [0xA, 0xA] @ FALLBACK_HINT)),
         (OLLAMA_URL_CLI, cli_payload (build_cli_prompt q @ [0xA] @ FALLBACK_HINT)),
         (OLLAMA_URL_CLI,
            cli_payload ((build_cli_prompt q @ [0xA] @ FALLBACK_HINT) @ [0xA, 0xA] @ FALLBACK_HINT))]\<rparr>)"
  by (simp add: cli_candidate_def Let_def gen_rejected_first error_strings_invalid)

lemma headache_question:
  "strip headache = headache" "headache \<noteq> []" "\<not> is_exit headache"
  by (simp_all add: headache_def strip_def lstrip_def rstrip_def isspace_def is_exit_def ascii_def)

lemma unreachable_cli:
  assumes "\<forall>n url payload. \<exists>e. gen n url payload = RequestException e"
  shows "query_ollama_cli cc gen w p b =
     (Inr SYSTEM_ERROR, w\<lparr>sent := sent w @ [(OLLAMA_URL_CLI, cli_payload p)]\<rparr>)"
proof -
  from assms obtain e where "gen (length (sent w)) OLLAMA_URL_CLI (cli_payload p) = RequestException e"
    by blast
  then show ?thesis
    by (subst query_ollama_cli.simps) (simp add: post_request_def)
qed

lemma unreachable_candidate:
  assumes "\<forall>n url payload. \<exists>e. gen n url payload = RequestException e"
  shows "cli_candidate cc gen w q =
     (Inr (fallback_response q),
      w\<lparr>sent := sent w @
        [(OLLAMA_URL_CLI, cli_payload (build_cli_prompt q)),
         (OLLAMA_URL_CLI, cli_payload (build_cli_prompt q @ [0xA] @ FALLBACK_HINT))]\<rparr>)"
  by (simp add: cli_candidate_def Let_def unreachable_cli [OF assms] error_strings_invalid)

section \<open>Normalisation of the reply\<close>

lemma dizziness_question:
  "strip dizziness = dizziness" "dizziness \<noteq> []" "\<not> is_exit dizziness"
  by (simp_all add: dizziness_def strip_def lstrip_def rstrip_def isspace_def is_exit_def ascii_def)

lemma db_simplified_lookup:
  "lookup_medical_db db_simplified (Some dizziness) = Some (format_response entry_simplified)"
  using dizziness_question(2)
  by (simp add: lookup_medical_db_def dizziness_question(1) db_simplified_def terms_of_def
      str_in_sublist)

lemma s2t_sample_changes:
  "to_traditional s2t_sample (format_response entry_simplified) \<noteq> format_response entry_simplified"
proof -
  have "0x53D1 \<in> set (format_response entry_simplified)"
    by (simp add: format_response_def section_lines_def entry_simplified_def get_or_def BULLET_def)
  moreover have "0x53D1 \<notin> set (to_traditional s2t_sample t)" for t
    by (auto simp: to_traditional_def s2t_sample_def)
  ultimately show ?thesis by metis
qed

text \<open>
  Claim C3, as stated: on every outcome path, the knowledge-base hit included, the text
  handed to the user is \<open>to_traditional\<close> of the candidate text. Both front ends show a
  knowledge-base hit as \<open>format_response\<close> made it, without \<open>to_traditional\<close>: with a
  knowledge base that holds a simplified character and a conversion that changes that
  character, the text shown is not the converted text (and not a fixed point of the
  conversion).
\<close>

theorem C3_knowledge_base_reply_not_normalised_counterexample:
  "fst (run_cli_iteration s2t_sample db_simplified gen_down world0 dizziness) =
     Inr (DbResult (format_response entry_simplified)) \<and>
   to_traditional s2t_sample (format_response entry_simplified) \<noteq> format_response entry_simplified"
  by (simp add: run_cli_iteration_def dizziness_question db_simplified_lookup format_nonempty
      s2t_sample_changes)

text \<open>
  Claim C3, amended: on the generator paths (generated, generated after the hint,
  fallback) the text handed to the user is \<open>to_traditional\<close> applied to the candidate
  text, which is a wrapper reply that passed the validator or the fallback text; it is
  then a fixed point of \<open>to_traditional\<close> whenever the conversion is idempotent. On a
  knowledge-base hit the text handed to the user is the formatted record as it is, and no
  request is sent.
\<close>

theorem C3_generator_path_reply_normalised:
  "(run_cli_iteration cc db gen w line = (Inr (ModelReply r), w') \<longrightarrow>
      (\<exists>c. cli_candidate cc gen w (strip line) = (Inr c, w') \<and>
           (is_valid_response (PStr c) 50 \<or> c = fallback_response (strip line)) \<and>
           r = to_traditional cc c \<and>
           ((\<forall>t. cc (cc t) = cc t) \<longrightarrow> to_traditional cc r = r))) \<and>
   (run_web cc db gen w user_input = (Inr (ModelReply r), w') \<longrightarrow>
      (\<exists>c. web_candidate cc gen w user_input = (Inr c, w') \<and>
           (is_valid_response (PStr c) 50 \<or> c = fallback_response user_input) \<and>
           r = to_traditional cc c \<and>
           ((\<forall>t. cc (cc t) = cc t) \<longrightarrow> to_traditional cc r = r))) \<and>
   (run_cli_iteration cc db gen w line = (Inr (DbResult r), w') \<longrightarrow>
      lookup_medical_db db (Some (strip line)) = Some r \<and> w' = w) \<and>
   (run_web cc db gen w user_input = (Inr (DbResult r), w') \<longrightarrow>
      lookup_medical_db db (Some user_input) = Some r \<and> w' = w)"
proof (intro conjI impI)
  assume a: "run_cli_iteration cc db gen w line = (Inr (ModelReply r), w')"
  from run_cli_iteration_cases [OF a]
  obtain c where c: "r = to_traditional cc c" "cli_candidate cc gen w (strip line) = (Inr c, w')"
    by auto
  with cli_candidate_result [OF c(2)]
  show "\<exists>c. cli_candidate cc gen w (strip line) = (Inr c, w') \<and>
           (is_valid_response (PStr c) 50 \<or> c = fallback_response (strip line)) \<and>
           r = to_traditional cc c \<and>
           ((\<forall>t. cc (cc t) = cc t) \<longrightarrow> to_traditional cc r = r)"
    by (auto simp: to_traditional_def)
next
  assume a: "run_web cc db gen w user_input = (Inr (ModelReply r), w')"
  from run_web_cases [OF a]
  obtain c where c: "r = to_traditional cc c" "web_candidate cc gen w user_input = (Inr c, w')"
    by auto
  with web_candidate_result [OF c(2)]
  show "\<exists>c. web_candidate cc gen w user_input = (Inr c, w') \<and>
           (is_valid_response (PStr c) 50 \<or> c = fallback_response user_input) \<and>
           r = to_traditional cc c \<and>
           ((\<forall>t. cc (cc t) = cc t) \<longrightarrow> to_traditional cc r = r)"
    by (auto simp: to_traditional_def)
next
  assume a: "run_cli_iteration cc db gen w line = (Inr (DbResult r), w')"
  from run_cli_iteration_cases [OF a]
  show "lookup_medical_db db (Some (strip line)) = Some r" "w' = w"
    by auto
next
  assume a: "run_web cc db gen w user_input = (Inr (DbResult r), w')"
  from run_web_cases [OF a]
  show "lookup_medical_db db (Some user_input) = Some r" "w' = w"
    by auto
qed

lemma gen_rejected_web_retry:
  "query_ollama_web cc gen_rejected w u True =
     (Inr APOLOGY, w\<lparr>sent := sent w @ [(OLLAMA_URL_WEB, web_payload (build_web_prompt u))]\<rparr>)"
  by (subst query_ollama_web.simps)
    (simp add: post_request_def gen_rejected_def web_answer_def ascii_def get_or_def strip_short
      too_short_rejected)

lemma gen_rejected_web_first:
  "query_ollama_web cc gen_rejected w u False =
     (Inr APOLOGY, w\<lparr>sent := sent w @ [(OLLAMA_URL_WEB, web_payload (build_web_prompt u)),
        (OLLAMA_URL_WEB, web_payload (build_web_prompt (u @ FULL_STOP @ FALLBACK_HINT)))]\<rparr>)"
  by (subst query_ollama_web.simps)
    (simp add: post_request_def gen_rejected_def web_answer_def ascii_def get_or_def strip_short
      too_short_rejected gen_rejected_web_retry)

lemma gen_rejected_web_candidate:
  "fst (web_candidate cc gen_rejected w u) = Inr (fallback_response u)"
  by (simp add: web_candidate_def gen_rejected_web_first error_strings_invalid)

lemma gen_rejected_cli_reply:
  "fst (run_cli_iteration cc [] gen_rejected w headache) =
     Inr (ModelReply (to_traditional cc (fallback_response headache)))"
  by (simp add: run_cli_iteration_def headache_question lookup_medical_db_def
      gen_rejected_candidate)

lemma gen_rejected_web_reply:
  "fst (run_web cc [] gen_rejected w headache) =
     Inr (ModelReply (to_traditional cc (fallback_response headache)))"
proof -
  obtain c w' where a: "web_candidate cc gen_rejected w headache = (c, w')"
    by (cases "web_candidate cc gen_rejected w headache")
  with gen_rejected_web_candidate [of cc w headache] have "c = Inr (fallback_response headache)"
    by simp
  with a show ?thesis
    by (simp add: run_web_def headache_question lookup_medical_db_def)
qed

lemma s2t_sample_idempotent: "s2t_sample (s2t_sample t) = s2t_sample t"
  by (simp add: s2t_sample_def)

lemma db_simplified_web:
  "fst (run_web cc db_simplified gen w dizziness) = Inr (DbResult (format_response entry_simplified))"
  by (simp add: run_web_def dizziness_question db_simplified_lookup format_nonempty)

lemma db_simplified_cli:
  "fst (run_cli_iteration cc db_simplified gen w dizziness) =
     Inr (DbResult (format_response entry_simplified))"
  by (simp add: run_cli_iteration_def dizziness_question db_simplified_lookup format_nonempty)

theorem C3_generator_path_reply_normalised_witness:
  "fst (run_cli_iteration s2t_sample [] gen_rejected world0 headache) =
     Inr (ModelReply (to_traditional s2t_sample (fallback_response headache))) \<and>
   to_traditional s2t_sample (to_traditional s2t_sample (fallback_response headache)) =
     to_traditional s2t_sample (fallback_response headache) \<and>
   fst (run_web s2t_sample [] gen_rejected world0 headache) =
     Inr (ModelReply (to_traditional s2t_sample (fallback_response headache))) \<and>
   fst (run_cli_iteration s2t_sample db_simplified gen_rejected world0 dizziness) =
     Inr (DbResult (format_response entry_simplified)) \<and>
   lookup_medical_db db_simplified (Some (strip dizziness)) = Some (format_response entry_simplified) \<and>
   lookup_medical_db db_simplified (Some dizziness) = Some (format_response entry_simplified)"
proof -
  let ?r = "to_traditional s2t_sample (fallback_response headache)"
  let ?f = "format_response entry_simplified"
  obtain w1 where a: "run_cli_iteration s2t_sample [] gen_rejected world0 headache
      = (Inr (ModelReply ?r), w1)"
    using gen_rejected_cli_reply [of s2t_sample world0]
    by (cases "run_cli_iteration s2t_sample [] gen_rejected world0 headache") simp
  obtain w2 where b: "run_web s2t_sample [] gen_rejected world0 headache = (Inr (ModelReply ?r), w2)"
    using gen_rejected_web_reply [of s2t_sample world0]
    by (cases "run_web s2t_sample [] gen_rejected world0 headache") simp
  obtain w3 where c: "run_cli_iteration s2t_sample db_simplified gen_rejected world0 dizziness
      = (Inr (DbResult ?f), w3)"
    using db_simplified_cli [of s2t_sample gen_rejected world0]
    by (cases "run_cli_iteration s2t_sample db_simplified gen_rejected world0 dizziness") simp
  obtain w4 where d: "run_web s2t_sample db_simplified gen_rejected world0 dizziness
      = (Inr (DbResult ?f), w4)"
    using db_simplified_web [of s2t_sample gen_rejected world0]
    by (cases "run_web s2t_sample db_simplified gen_rejected world0 dizziness") simp
  have i: "\<forall>t. s2t_sample (s2t_sample t) = s2t_sample t"
    by (simp add: s2t_sample_idempotent)
  from C3_generator_path_reply_normalised
    [of s2t_sample "[]" gen_rejected world0 headache ?r w1 headache] a i
  have 1: "to_traditional s2t_sample ?r = ?r"
    by blast
  from C3_generator_path_reply_normalised
    [of s2t_sample "[]" gen_rejected world0 headache ?r w2 headache] b i
  have 2: "to_traditional s2t_sample ?r = ?r"
    by blast
  from C3_generator_path_reply_normalised
    [of s2t_sample db_simplified gen_rejected world0 dizziness ?f w3 dizziness] c
  have 3: "lookup_medical_db db_simplified (Some (strip dizziness)) = Some ?f"
    by blast
  from C3_generator_path_reply_normalised
    [of s2t_sample db_simplified gen_rejected world0 dizziness ?f w4 dizziness] d
  have 4: "lookup_medical_db db_simplified (Some dizziness) = Some ?f"
    by blast
  from a b c 1 3 4 show ?thesis
    by simp
qed

section \<open>Replies and failures of the generator path\<close>

lemma error_strings_length: "length SYSTEM_ERROR = 14" "length APOLOGY = 22"
  by (simp_all add: SYSTEM_ERROR_def APOLOGY_def)

lemma fallback_not_error: "fallback_response q \<noteq> SYSTEM_ERROR" "fallback_response q \<noteq> APOLOGY"
  using fallback_length [of q] error_strings_length by auto

lemma valid_not_error:
  "is_valid_response (PStr c) 50 \<Longrightarrow> c \<noteq> SYSTEM_ERROR \<and> c \<noteq> APOLOGY"
  using error_strings_invalid by auto

lemma lookup_loop_Some:
  "lookup_loop db u = Some r \<Longrightarrow> \<exists>entry. r = format_response entry"
  by (induction db u rule: lookup_loop.induct) (auto split: if_splits)

lemma lookup_not_error:
  assumes "lookup_medical_db db s = Some r"
  shows "r \<noteq> SYSTEM_ERROR \<and> r \<noteq> APOLOGY"
proof -
  from assms obtain entry where "r = format_response entry"
    by (auto simp: lookup_medical_db_def split: option.splits if_splits dest: lookup_loop_Some)
  then have "50 \<le> length r"
    using format_strip_length [of entry] strip_length_le [of r] by simp
  then show ?thesis
    using error_strings_length by auto
qed

lemma run_cli_iteration_fallback:
  assumes "strip line \<noteq> []" "\<not> is_exit (strip line)"
    and "lookup_medical_db db (Some (strip line)) = None"
    and "cli_candidate cc gen w (strip line) = (Inr c, w')"
  shows "run_cli_iteration cc db gen w line = (Inr (ModelReply (to_traditional cc c)), w')"
  using assms by (simp add: run_cli_iteration_def)

text \<open>The only exception that can end a request is the one an ill-typed payload raises.\<close>

lemma run_cli_iteration_raises:
  "run_cli_iteration cc db gen w line = (Inl e, w') \<Longrightarrow> e = no_attribute"
  by (auto dest!: run_cli_iteration_cases cli_candidate_raises)

lemma run_web_raises:
  "run_web cc db gen w user_input = (Inl e, w') \<Longrightarrow> e = no_attribute"
  by (auto dest!: run_web_cases web_candidate_raises)

text \<open>
  What holds when no exception is raised: a reply of the generator path is
  \<open>to_traditional\<close> of a candidate that passed the validator or is the fallback text, and
  that candidate is neither of the two strings the wrappers return on failure; a
  knowledge-base reply is neither of them; two wrapper calls whose replies are not valid,
  and in particular a generator that fails in transport on every request, give
  \<open>to_traditional\<close> of the fallback text. The statement is about the candidate before
  the conversion, which is a parameter.
\<close>

lemma reply_from_valid_candidate_or_fallback:
  "(run_cli_iteration cc db gen w line = (Inr (ModelReply r), w') \<longrightarrow>
      (\<exists>c. r = to_traditional cc c \<and>
           (is_valid_response (PStr c) 50 \<or> c = fallback_response (strip line)) \<and>
           c \<noteq> SYSTEM_ERROR \<and> c \<noteq> APOLOGY)) \<and>
   (run_web cc db gen w user_input = (Inr (ModelReply r), w') \<longrightarrow>
      (\<exists>c. r = to_traditional cc c \<and>
           (is_valid_response (PStr c) 50 \<or> c = fallback_response user_input) \<and>
           c \<noteq> SYSTEM_ERROR \<and> c \<noteq> APOLOGY)) \<and>
   (run_cli_iteration cc db gen w line = (Inr (DbResult r), w') \<longrightarrow>
      r \<noteq> SYSTEM_ERROR \<and> r \<noteq> APOLOGY) \<and>
   (strip line \<noteq> [] \<and> \<not> is_exit (strip line) \<and>
    lookup_medical_db db (Some (strip line)) = None \<and>
    query_ollama_cli cc gen w (build_cli_prompt (strip line)) False = (Inr r1, w1) \<and>
    \<not> is_valid_response (PStr r1) 50 \<and>
    query_ollama_cli cc gen w1 (build_cli_prompt (strip line) @ [0xA] @ FALLBACK_HINT) False
      = (Inr r2, w2) \<and>
    \<not> is_valid_response (PStr r2) 50 \<longrightarrow>
      run_cli_iteration cc db gen w line =
        (Inr (ModelReply (to_traditional cc (fallback_response (strip line)))), w2)) \<and>
   (strip line \<noteq> [] \<and> \<not> is_exit (strip line) \<and>
    lookup_medical_db db (Some (strip line)) = None \<and>
    (\<forall>n url payload. \<exists>e. gen n url payload = RequestException e) \<longrightarrow>
      fst (run_cli_iteration cc db gen w line) =
        Inr (ModelReply (to_traditional cc (fallback_response (strip line)))))"
proof (intro conjI impI)
  assume a: "run_cli_iteration cc db gen w line = (Inr (ModelReply r), w')"
  from run_cli_iteration_cases [OF a]
  obtain c where c: "r = to_traditional cc c" "cli_candidate cc gen w (strip line) = (Inr c, w')"
    by auto
  from cli_candidate_result [OF c(2)]
  have "is_valid_response (PStr c) 50 \<or> c = fallback_response (strip line)" .
  moreover from this have "c \<noteq> SYSTEM_ERROR \<and> c \<noteq> APOLOGY"
    using valid_not_error [of c] fallback_not_error [of "strip line"] by auto
  ultimately show "\<exists>c. r = to_traditional cc c \<and>
           (is_valid_response (PStr c) 50 \<or> c = fallback_response (strip line)) \<and>
           c \<noteq> SYSTEM_ERROR \<and> c \<noteq> APOLOGY"
    using c(1) by blast
next
  assume a: "run_web cc db gen w user_input = (Inr (ModelReply r), w')"
  from run_web_cases [OF a]
  obtain c where c: "r = to_traditional cc c" "web_candidate cc gen w user_input = (Inr c, w')"
    by auto
  from web_candidate_result [OF c(2)]
  have "is_valid_response (PStr c) 50 \<or> c = fallback_response user_input" .
  moreover from this have "c \<noteq> SYSTEM_ERROR \<and> c \<noteq> APOLOGY"
    using valid_not_error [of c] fallback_not_error [of user_input] by auto
  ultimately show "\<exists>c. r = to_traditional cc c \<and>
           (is_valid_response (PStr c) 50 \<or> c = fallback_response user_input) \<and>
           c \<noteq> SYSTEM_ERROR \<and> c \<noteq> APOLOGY"
    using c(1) by blast
next
  assume a: "run_cli_iteration cc db gen w line = (Inr (DbResult r), w')"
  from run_cli_iteration_cases [OF a]
  have "lookup_medical_db db (Some (strip line)) = Some r"
    by auto
  then have "r \<noteq> SYSTEM_ERROR \<and> r \<noteq> APOLOGY"
    by (rule lookup_not_error)
  then show "r \<noteq> SYSTEM_ERROR" "r \<noteq> APOLOGY"
    by simp_all
next
  assume a: "strip line \<noteq> [] \<and> \<not> is_exit (strip line) \<and>
    lookup_medical_db db (Some (strip line)) = None \<and>
    query_ollama_cli cc gen w (build_cli_prompt (strip line)) False = (Inr r1, w1) \<and>
    \<not> is_valid_response (PStr r1) 50 \<and>
    query_ollama_cli cc gen w1 (build_cli_prompt (strip line) @ [0xA] @ FALLBACK_HINT) False
      = (Inr r2, w2) \<and>
    \<not> is_valid_response (PStr r2) 50"
  then have "cli_candidate cc gen w (strip line) = (Inr (fallback_response (strip line)), w2)"
    using cli_candidate_fallback [of cc gen w "strip line" r1 w1 r2 w2] by blast
  with a show "run_cli_iteration cc db gen w line =
        (Inr (ModelReply (to_traditional cc (fallback_response (strip line)))), w2)"
    using run_cli_iteration_fallback by blast
next
  assume a: "strip line \<noteq> [] \<and> \<not> is_exit (strip line) \<and>
    lookup_medical_db db (Some (strip line)) = None \<and>
    (\<forall>n url payload. \<exists>e. gen n url payload = RequestException e)"
  then have "\<exists>w'. cli_candidate cc gen w (strip line) = (Inr (fallback_response (strip line)), w')"
    using unreachable_candidate [of gen cc w "strip line"] by blast
  with a show "fst (run_cli_iteration cc db gen w line) =
        Inr (ModelReply (to_traditional cc (fallback_response (strip line))))"
    using run_cli_iteration_fallback [of line db cc gen w] by fastforce
qed

lemma gen_null_cli:
  "query_ollama_cli cc gen_null w p False =
     (Inl no_attribute, w\<lparr>sent := sent w @ [(OLLAMA_URL_CLI, cli_payload p)]\<rparr>)"
  by (subst query_ollama_cli.simps)
    (simp add: post_request_def gen_null_def cli_answer_def ascii_def get_or_def)

lemma gen_null_web:
  "query_ollama_web cc gen_null w u False =
     (Inl no_attribute,
      w\<lparr>sent := sent w @ [(OLLAMA_URL_WEB, web_payload (build_web_prompt u))]\<rparr>)"
  by (subst query_ollama_web.simps)
    (simp add: post_request_def gen_null_def web_answer_def ascii_def get_or_def)

text \<open>
  Claim C8: for every request, no raw technical error reaches the user, and when the
  generation attempts fail the reply is the fallback text. The wrappers read the answer
  with \<open>get\<close> and defaults, which covers a missing field, and a transport failure is
  caught and ends in the fallback text; a field that is present with a value of another
  type is not covered. With a generator that answers \<open>{"message": null, "response":
  null}\<close>, the first call of the wrapper raises \<open>AttributeError\<close> after one request: no
  retry is made, no fallback text is produced, and the exception leaves both front ends
  (\<open>cli.py\<close> logs its text and exits, \<open>app.py\<close> does not handle it).
\<close>

theorem C8_null_payload_raises_instead_of_fallback:
  "run_cli_iteration cc [] gen_null w headache =
     (Inl no_attribute,
      w\<lparr>sent := sent w @ [(OLLAMA_URL_CLI, cli_payload (build_cli_prompt headache))]\<rparr>) \<and>
   run_web cc [] gen_null w headache =
     (Inl no_attribute,
      w\<lparr>sent := sent w @ [(OLLAMA_URL_WEB, web_payload (build_web_prompt headache))]\<rparr>) \<and>
   run_cli cc [] gen_null w [Some headache, Some headache] =
     ((Some no_attribute, []),
      w\<lparr>sent := sent w @ [(OLLAMA_URL_CLI, cli_payload (build_cli_prompt headache))]\<rparr>)"
proof -
  have a: "run_cli_iteration cc [] gen_null w headache =
     (Inl no_attribute,
      w\<lparr>sent := sent w @ [(OLLAMA_URL_CLI, cli_payload (build_cli_prompt headache))]\<rparr>)"
    by (simp add: run_cli_iteration_def headache_question lookup_medical_db_def
        cli_candidate_def Let_def gen_null_cli)
  have b: "run_web cc [] gen_null w headache =
     (Inl no_attribute,
      w\<lparr>sent := sent w @ [(OLLAMA_URL_WEB, web_payload (build_web_prompt headache))]\<rparr>)"
    by (simp add: run_web_def headache_question lookup_medical_db_def
        web_candidate_def gen_null_web)
  from a b show ?thesis
    by simp
qed

section \<open>The requests of one user request\<close>

lemma run_cli_iteration_miss:
  assumes "strip line \<noteq> []" "\<not> is_exit (strip line)"
    and "lookup_medical_db db (Some (strip line)) = None"
    and "run_cli_iteration cc db gen w line = (out, w')"
  shows "\<exists>res. cli_candidate cc gen w (strip line) = (res, w')"
  using assms
  by (cases "cli_candidate cc gen w (strip line)")
    (auto simp: run_cli_iteration_def Let_def split: sum.splits)

lemma run_web_miss:
  assumes "strip user_input \<noteq> []"
    and "lookup_medical_db db (Some user_input) = None"
    and "run_web cc db gen w user_input = (out, w')"
  shows "\<exists>res. web_candidate cc gen w user_input = (res, w')"
  using assms
  by (cases "web_candidate cc gen w user_input")
    (auto simp: run_web_def Let_def split: sum.splits)

lemma run_cli_iteration_no_request:
  assumes "run_cli_iteration cc db gen w line = (Inr oc, w')" "\<forall>r. oc \<noteq> ModelReply r"
  shows "w' = w"
  using run_cli_iteration_cases [OF assms(1)] assms(2) by auto

lemma run_web_no_request:
  assumes "run_web cc db gen w user_input = (Inr oc, w')" "\<forall>r. oc \<noteq> ModelReply r"
  shows "w' = w"
  using run_web_cases [OF assms(1)] assms(2) by auto

text \<open>
  Claim C2, as stated: for a request that misses the knowledge base the generator is
  invoked at most twice, the initial attempt and one retry with the hint. The code
  retries at two levels: the wrapper sends a second request with the hint when the first
  answer is not valid, and the front end calls the wrapper a second time, with the hint
  appended to the prompt, when the wrapper's reply is not valid. With a generator whose
  every answer is rejected, one request of the command-line front end sends four
  requests; the last prompt carries the hint twice.
\<close>

theorem C2_four_generator_requests_counterexample:
  "sent (snd (run_cli_iteration id [] gen_rejected world0 headache)) =
     [(OLLAMA_URL_CLI, cli_payload (build_cli_prompt headache)),
      (OLLAMA_URL_CLI, cli_payload (build_cli_prompt headache @ [0xA, 0xA] @ FALLBACK_HINT)),
      (OLLAMA_URL_CLI, cli_payload (build_cli_prompt headache @ [0xA] @ FALLBACK_HINT)),
      (OLLAMA_URL_CLI,
         cli_payload ((build_cli_prompt headache @ [0xA] @ FALLBACK_HINT) @ [0xA, 0xA] @ FALLBACK_HINT))]"
  by (simp add: run_cli_iteration_def headache_question lookup_medical_db_def
      gen_rejected_candidate world0_def)

text \<open>
  Claim C2, amended. One call of a wrapper sends one request with its prompt and, exactly
  when \<open>use_fallback\<close> is false and the answer is present but not valid, one more with
  the hint appended to the prompt. One user request that misses the knowledge base calls
  the wrapper once with the base prompt and, exactly when the reply of that call is not
  valid, once more with the hint appended. Such a request therefore sends at least one and
  at most four requests to the generator, in one of six sequences, each starting with the
  base prompt and every later one carrying the hint; there is never a fifth. A request
  that does not end in a generator reply (empty input, \<open>exit\<close>, knowledge-base hit) sends
  none.
\<close>

theorem C2_one_to_four_generator_requests:
  "(query_ollama_cli cc gen w p b = (res, w1) \<longrightarrow>
      sent w1 = sent w @
        (if \<not> b \<and> truthy (fst (post_request gen w OLLAMA_URL_CLI (cli_payload p))) \<and>
            (\<exists>a. cli_answer (fst (post_request gen w OLLAMA_URL_CLI (cli_payload p))) = Inr a \<and>
                 \<not> is_valid_response (PStr a) 50)
         then [(OLLAMA_URL_CLI, cli_payload p),
               (OLLAMA_URL_CLI, cli_payload (p @ [0xA, 0xA] @ FALLBACK_HINT))]
         else [(OLLAMA_URL_CLI, cli_payload p)])) \<and>
   (query_ollama_web cc gen w u b = (res, w1) \<longrightarrow>
      sent w1 = sent w @
        (if \<not> b \<and>
            truthy (fst (post_request gen w OLLAMA_URL_WEB (web_payload (build_web_prompt u)))) \<and>
            (\<exists>a. web_answer (fst (post_request gen w OLLAMA_URL_WEB (web_payload (build_web_prompt u))))
                   = Inr a \<and> \<not> is_valid_response (PStr a) 50)
         then [(OLLAMA_URL_WEB, web_payload (build_web_prompt u)),
               (OLLAMA_URL_WEB, web_payload (build_web_prompt (u @ FULL_STOP @ FALLBACK_HINT)))]
         else [(OLLAMA_URL_WEB, web_payload (build_web_prompt u))])) \<and>
   (strip line \<noteq> [] \<and> \<not> is_exit (strip line) \<and>
    lookup_medical_db db (Some (strip line)) = None \<and>
    run_cli_iteration cc db gen w line = (out, w') \<and>
    query_ollama_cli cc gen w (build_cli_prompt (strip line)) False = (r1, w2) \<longrightarrow>
      (if \<exists>reply. r1 = Inr reply \<and> \<not> is_valid_response (PStr reply) 50
       then \<exists>r2. query_ollama_cli cc gen w2
                   (build_cli_prompt (strip line) @ [0xA] @ FALLBACK_HINT) False = (r2, w')
       else w' = w2) \<and>
      (\<exists>reqs. sent w' = sent w @ map (\<lambda>p. (OLLAMA_URL_CLI, cli_payload p)) reqs \<and>
         reqs \<in> set
           [ [build_cli_prompt (strip line)],
            [build_cli_prompt (strip line),
             build_cli_prompt (strip line) @ [0xA, 0xA] @ FALLBACK_HINT],
            [build_cli_prompt (strip line),
             build_cli_prompt (strip line) @ [0xA] @ FALLBACK_HINT],
            [build_cli_prompt (strip line),
             build_cli_prompt (strip line) @ [0xA] @ FALLBACK_HINT,
             (build_cli_prompt (strip line) @ [0xA] @ FALLBACK_HINT) @ [0xA, 0xA] @ FALLBACK_HINT],
            [build_cli_prompt (strip line),
             build_cli_prompt (strip line) @ [0xA, 0xA] @ FALLBACK_HINT,
             build_cli_prompt (strip line) @ [0xA] @ FALLBACK_HINT],
            [build_cli_prompt (strip line),
             build_cli_prompt (strip line) @ [0xA, 0xA] @ FALLBACK_HINT,
             build_cli_prompt (strip line) @ [0xA] @ FALLBACK_HINT,
             (build_cli_prompt (strip line) @ [0xA] @ FALLBACK_HINT)
               @ [0xA, 0xA] @ FALLBACK_HINT] ])) \<and>
   (strip user_input \<noteq> [] \<and>
    lookup_medical_db db (Some user_input) = None \<and>
    run_web cc db gen w user_input = (out, w') \<and>
    query_ollama_web cc gen w user_input False = (r1, w2) \<longrightarrow>
      (if \<exists>reply. r1 = Inr reply \<and> \<not> is_valid_response (PStr reply) 50
       then \<exists>r2. query_ollama_web cc gen w2 (user_input @ [0xA] @ FALLBACK_HINT) False = (r2, w')
       else w' = w2) \<and>
      (\<exists>reqs. sent w' = sent w @
                 map (\<lambda>i. (OLLAMA_URL_WEB, web_payload (build_web_prompt i))) reqs \<and>
         reqs \<in> set
           [ [user_input],
            [user_input, user_input @ FULL_STOP @ FALLBACK_HINT],
            [user_input, user_input @ [0xA] @ FALLBACK_HINT],
            [user_input, user_input @ [0xA] @ FALLBACK_HINT,
             (user_input @ [0xA] @ FALLBACK_HINT) @ FULL_STOP @ FALLBACK_HINT],
            [user_input, user_input @ FULL_STOP @ FALLBACK_HINT,
             user_input @ [0xA] @ FALLBACK_HINT],
            [user_input, user_input @ FULL_STOP @ FALLBACK_HINT,
             user_input @ [0xA] @ FALLBACK_HINT,
             (user_input @ [0xA] @ FALLBACK_HINT) @ FULL_STOP @ FALLBACK_HINT] ])) \<and>
   (run_cli_iteration cc db gen w line = (Inr oc, w') \<and> (\<forall>r. oc \<noteq> ModelReply r) \<longrightarrow> w' = w) \<and>
   (run_web cc db gen w user_input = (Inr oc, w') \<and> (\<forall>r. oc \<noteq> ModelReply r) \<longrightarrow> w' = w) \<and>
   (run_cli_iteration cc db gen w line = (out, w') \<longrightarrow>
      (\<exists>reqs. sent w' = sent w @ reqs \<and> length reqs \<le> 4)) \<and>
   (run_web cc db gen w user_input = (out, w') \<longrightarrow>
      (\<exists>reqs. sent w' = sent w @ reqs \<and> length reqs \<le> 4))"
proof (intro conjI impI)
  show "sent w1 = sent w @
        (if \<not> b \<and> truthy (fst (post_request gen w OLLAMA_URL_CLI (cli_payload p))) \<and>
            (\<exists>a. cli_answer (fst (post_request gen w OLLAMA_URL_CLI (cli_payload p))) = Inr a \<and>
                 \<not> is_valid_response (PStr a) 50)
         then [(OLLAMA_URL_CLI, cli_payload p),
               (OLLAMA_URL_CLI, cli_payload (p @ [0xA, 0xA] @ FALLBACK_HINT))]
         else [(OLLAMA_URL_CLI, cli_payload p)])"
    if "query_ollama_cli cc gen w p b = (res, w1)"
    using that by (rule query_cli_requests)
  show "sent w1 = sent w @
        (if \<not> b \<and>
            truthy (fst (post_request gen w OLLAMA_URL_WEB (web_payload (build_web_prompt u)))) \<and>
            (\<exists>a. web_answer (fst (post_request gen w OLLAMA_URL_WEB (web_payload (build_web_prompt u))))
                   = Inr a \<and> \<not> is_valid_response (PStr a) 50)
         then [(OLLAMA_URL_WEB, web_payload (build_web_prompt u)),
               (OLLAMA_URL_WEB, web_payload (build_web_prompt (u @ FULL_STOP @ FALLBACK_HINT)))]
         else [(OLLAMA_URL_WEB, web_payload (build_web_prompt u))])"
    if "query_ollama_web cc gen w u b = (res, w1)"
    using that by (rule query_web_requests)
next
  assume a: "strip line \<noteq> [] \<and> \<not> is_exit (strip line) \<and>
    lookup_medical_db db (Some (strip line)) = None \<and>
    run_cli_iteration cc db gen w line = (out, w') \<and>
    query_ollama_cli cc gen w (build_cli_prompt (strip line)) False = (r1, w2)"
  then obtain cres where c: "cli_candidate cc gen w (strip line) = (cres, w')"
    using run_cli_iteration_miss [of line db cc gen w out w'] by blast
  from a have q: "query_ollama_cli cc gen w (build_cli_prompt (strip line)) False = (r1, w2)"
    by simp
  show "if \<exists>reply. r1 = Inr reply \<and> \<not> is_valid_response (PStr reply) 50
       then \<exists>r2. query_ollama_cli cc gen w2
                   (build_cli_prompt (strip line) @ [0xA] @ FALLBACK_HINT) False = (r2, w')
       else w' = w2"
    by (rule cli_candidate_second_call [OF c q])
  show "\<exists>reqs. sent w' = sent w @ map (\<lambda>p. (OLLAMA_URL_CLI, cli_payload p)) reqs \<and>
         reqs \<in> set
           [ [build_cli_prompt (strip line)],
            [build_cli_prompt (strip line),
             build_cli_prompt (strip line) @ [0xA, 0xA] @ FALLBACK_HINT],
            [build_cli_prompt (strip line),
             build_cli_prompt (strip line) @ [0xA] @ FALLBACK_HINT],
            [build_cli_prompt (strip line),
             build_cli_prompt (strip line) @ [0xA] @ FALLBACK_HINT,
             (build_cli_prompt (strip line) @ [0xA] @ FALLBACK_HINT) @ [0xA, 0xA] @ FALLBACK_HINT],
            [build_cli_prompt (strip line),
             build_cli_prompt (strip line) @ [0xA, 0xA] @ FALLBACK_HINT,
             build_cli_prompt (strip line) @ [0xA] @ FALLBACK_HINT],
            [build_cli_prompt (strip line),
             build_cli_prompt (strip line) @ [0xA, 0xA] @ FALLBACK_HINT,
             build_cli_prompt (strip line) @ [0xA] @ FALLBACK_HINT,
             (build_cli_prompt (strip line) @ [0xA] @ FALLBACK_HINT)
               @ [0xA, 0xA] @ FALLBACK_HINT] ]"
    by (rule cli_candidate_shapes [OF c])
next
  assume a: "strip user_input \<noteq> [] \<and>
    lookup_medical_db db (Some user_input) = None \<and>
    run_web cc db gen w user_input = (out, w') \<and>
    query_ollama_web cc gen w user_input False = (r1, w2)"
  then obtain cres where c: "web_candidate cc gen w user_input = (cres, w')"
    using run_web_miss [of user_input db cc gen w out w'] by blast
  from a have q: "query_ollama_web cc gen w user_input False = (r1, w2)"
    by simp
  show "if \<exists>reply. r1 = Inr reply \<and> \<not> is_valid_response (PStr reply) 50
       then \<exists>r2. query_ollama_web cc gen w2 (user_input @ [0xA] @ FALLBACK_HINT) False = (r2, w')
       else w' = w2"
    by (rule web_candidate_second_call [OF c q])
  show "\<exists>reqs. sent w' = sent w @
                 map (\<lambda>i. (OLLAMA_URL_WEB, web_payload (build_web_prompt i))) reqs \<and>
         reqs \<in> set
           [ [user_input],
            [user_input, user_input @ FULL_STOP @ FALLBACK_HINT],
            [user_input, user_input @ [0xA] @ FALLBACK_HINT],
            [user_input, user_input @ [0xA] @ FALLBACK_HINT,
             (user_input @ [0xA] @ FALLBACK_HINT) @ FULL_STOP @ FALLBACK_HINT],
            [user_input, user_input @ FULL_STOP @ FALLBACK_HINT,
             user_input @ [0xA] @ FALLBACK_HINT],
            [user_input, user_input @ FULL_STOP @ FALLBACK_HINT,
             user_input @ [0xA] @ FALLBACK_HINT,
             (user_input @ [0xA] @ FALLBACK_HINT) @ FULL_STOP @ FALLBACK_HINT] ]"
    by (rule web_candidate_shapes [OF c])
next
  show "w' = w" if "run_cli_iteration cc db gen w line = (Inr oc, w') \<and> (\<forall>r. oc \<noteq> ModelReply r)"
    using that run_cli_iteration_no_request by blast
  show "w' = w" if "run_web cc db gen w user_input = (Inr oc, w') \<and> (\<forall>r. oc \<noteq> ModelReply r)"
    using that run_web_no_request by blast
  show "\<exists>reqs. sent w' = sent w @ reqs \<and> length reqs \<le> 4"
    if "run_cli_iteration cc db gen w line = (out, w')"
    using that by (rule run_cli_iteration_sent)
  show "\<exists>reqs. sent w' = sent w @ reqs \<and> length reqs \<le> 4"
    if "run_web cc db gen w user_input = (out, w')"
    using that by (rule run_web_sent)
qed

theorem C2_one_to_four_generator_requests_witness:
  "sent (snd (query_ollama_cli id gen_rejected world0 headache True)) =
     [(OLLAMA_URL_CLI, cli_payload headache)] \<and>
   sent (snd (query_ollama_web id gen_rejected world0 headache True)) =
     [(OLLAMA_URL_WEB, web_payload (build_web_prompt headache))] \<and>
   sent (snd (run_cli_iteration id [] gen_rejected world0 headache)) \<noteq> [] \<and>
   sent (snd (run_web id [] gen_rejected world0 headache)) \<noteq> [] \<and>
   length (sent (snd (run_cli_iteration id [] gen_rejected world0 headache))) \<le> 4 \<and>
   length (sent (snd (run_web id [] gen_rejected world0 headache))) \<le> 4 \<and>
   snd (run_cli_iteration id db_simplified gen_rejected world0 dizziness) = world0 \<and>
   snd (run_web id db_simplified gen_rejected world0 dizziness) = world0"
proof -
  obtain res1 v1 where a1: "query_ollama_cli id gen_rejected world0 headache True = (res1, v1)"
    by (cases "query_ollama_cli id gen_rejected world0 headache True")
  from C2_one_to_four_generator_requests
    [where cc = id and gen = gen_rejected and w = world0 and p = headache and b = True
       and res = res1 and ?w1.0 = v1] a1
  have 1: "sent v1 = [(OLLAMA_URL_CLI, cli_payload headache)]"
    by (simp add: world0_def)
  obtain res2 v2 where a2: "query_ollama_web id gen_rejected world0 headache True = (res2, v2)"
    by (cases "query_ollama_web id gen_rejected world0 headache True")
  from C2_one_to_four_generator_requests
    [where cc = id and gen = gen_rejected and w = world0 and u = headache and b = True
       and res = res2 and ?w1.0 = v2] a2
  have 2: "sent v2 = [(OLLAMA_URL_WEB, web_payload (build_web_prompt headache))]"
    by (simp add: world0_def)
  have miss: "strip headache \<noteq> [] \<and> \<not> is_exit (strip headache) \<and>
      lookup_medical_db [] (Some (strip headache)) = None \<and>
      lookup_medical_db [] (Some headache) = None"
    by (simp add: headache_question lookup_medical_db_def)
  obtain out3 v3 where a3: "run_cli_iteration id [] gen_rejected world0 headache = (out3, v3)"
    by (cases "run_cli_iteration id [] gen_rejected world0 headache")
  obtain r3 u3 where b3:
    "query_ollama_cli id gen_rejected world0 (build_cli_prompt (strip headache)) False = (r3, u3)"
    by (cases "query_ollama_cli id gen_rejected world0 (build_cli_prompt (strip headache)) False")
  from C2_one_to_four_generator_requests
    [where cc = id and gen = gen_rejected and w = world0 and db = "[]" and line = headache
       and out = out3 and w' = v3 and ?r1.0 = r3 and ?w2.0 = u3] miss a3 b3
  have 3: "sent v3 \<noteq> [] \<and> length (sent v3) \<le> 4"
    by (auto simp: world0_def)
  obtain out4 v4 where a4: "run_web id [] gen_rejected world0 headache = (out4, v4)"
    by (cases "run_web id [] gen_rejected world0 headache")
  obtain r4 u4 where b4: "query_ollama_web id gen_rejected world0 headache False = (r4, u4)"
    by (cases "query_ollama_web id gen_rejected world0 headache False")
  from C2_one_to_four_generator_requests
    [where cc = id and gen = gen_rejected and w = world0 and db = "[]" and user_input = headache
       and out = out4 and w' = v4 and ?r1.0 = r4 and ?w2.0 = u4] miss a4 b4
  have 4: "sent v4 \<noteq> [] \<and> length (sent v4) \<le> 4"
    by (auto simp: world0_def)
  obtain v5 where a5: "run_cli_iteration id db_simplified gen_rejected world0 dizziness
      = (Inr (DbResult (format_response entry_simplified)), v5)"
    using db_simplified_cli [of id gen_rejected world0]
    by (cases "run_cli_iteration id db_simplified gen_rejected world0 dizziness") simp
  from C2_one_to_four_generator_requests
    [where cc = id and gen = gen_rejected and w = world0 and db = db_simplified
       and line = dizziness and oc = "DbResult (format_response entry_simplified)" and w' = v5] a5
  have 5: "v5 = world0"
    by simp
  obtain v6 where a6: "run_web id db_simplified gen_rejected world0 dizziness
      = (Inr (DbResult (format_response entry_simplified)), v6)"
    using db_simplified_web [of id gen_rejected world0]
    by (cases "run_web id db_simplified gen_rejected world0 dizziness") simp
  from C2_one_to_four_generator_requests
    [where cc = id and gen = gen_rejected and w = world0 and db = db_simplified
       and user_input = dizziness and oc = "DbResult (format_response entry_simplified)"
       and w' = v6] a6
  have 6: "v6 = world0"
    by simp
  from a1 1 a2 2 a3 3 a4 4 a5 5 a6 6 show ?thesis
    by simp
qed

end
